theory Spec2Isabelle
  imports Complex_Main "HOL-Library.Char_ord" "HOL-Library.List_Lexorder"
    "HOL-Library.Product_Lexorder" "HOL-Library.Multiset"
begin

section \<open>Python strings\<close>

text \<open>
  A Python \<open>str\<close> is modelled as the \<open>string\<close> of its UTF-8 bytes: searching,
  splitting, joining and comparing two strings give the same on the bytes as on the code
  points. The functions below are the \<open>str\<close> methods that
  \<open>winwin_cli/skills/cli.py\<close> calls, with Python's left-to-right, non-overlapping
  search for the separator. The method \<open>lower\<close> is the world's (see below).
\<close>

definition startswith :: "string \<Rightarrow> string \<Rightarrow> bool" where
  "startswith p s = (take (length p) s = p)"

text \<open>\<open>find_sub sep s\<close> is \<open>s.find(sep)\<close>, with \<open>None\<close> for \<open>-1\<close>.\<close>

fun find_sub :: "string \<Rightarrow> string \<Rightarrow> nat option" where
  "find_sub sep [] = (if sep = [] then Some 0 else None)"
| "find_sub sep (c # cs) =
     (if startswith sep (c # cs) then Some 0 else map_option Suc (find_sub sep cs))"

text \<open>\<open>sep in s\<close>.\<close>

definition contains :: "string \<Rightarrow> string \<Rightarrow> bool" where
  "contains sep s = (find_sub sep s \<noteq> None)"

text \<open>
  \<open>split_str sep s\<close> is \<open>s.split(sep)\<close>. The source only splits on the literals
  \<open>"/"\<close> and \<open>"/tree/"\<close>; Python rejects an empty separator, and the model returns
  \<open>[s]\<close> there.
\<close>

function split_str :: "string \<Rightarrow> string \<Rightarrow> string list" where
  "split_str sep s =
     (if sep = [] then [s]
      else case find_sub sep s of
             None \<Rightarrow> [s]
           | Some i \<Rightarrow> take i s # split_str sep (drop (i + length sep) s))"
  by pat_completeness auto
termination
proof (relation "measure (\<lambda>(sep, s). length s)")
  show "wf (measure (\<lambda>(sep, s). length s))" by simp
next
  fix sep s :: string and i
  assume "sep \<noteq> []" and "find_sub sep s = Some i"
  then have "s \<noteq> []" by (cases s) auto
  with \<open>sep \<noteq> []\<close>
  show "((sep, drop (i + length sep) s), (sep, s)) \<in> measure (\<lambda>(sep, s). length s)"
    by (cases s) auto
qed

declare split_str.simps [simp del]

text \<open>\<open>split_max sep n s\<close> is \<open>s.split(sep, n)\<close>: at most \<open>n\<close> splits.\<close>

fun split_max :: "string \<Rightarrow> nat \<Rightarrow> string \<Rightarrow> string list" where
  "split_max sep 0 s = [s]"
| "split_max sep (Suc n) s =
     (case find_sub sep s of
        None \<Rightarrow> [s]
      | Some i \<Rightarrow> take i s # split_max sep n (drop (i + length sep) s))"

text \<open>\<open>replace_str old new s\<close> is \<open>s.replace(old, new)\<close>: every occurrence.\<close>

function replace_str :: "string \<Rightarrow> string \<Rightarrow> string \<Rightarrow> string" where
  "replace_str old new s =
     (if old = [] then s
      else case find_sub old s of
             None \<Rightarrow> s
           | Some i \<Rightarrow> take i s @ new @ replace_str old new (drop (i + length old) s))"
  by pat_completeness auto
termination
proof (relation "measure (\<lambda>(old, new, s). length s)")
  show "wf (measure (\<lambda>(old, new, s). length s))" by simp
next
  fix old new s :: string and i
  assume "old \<noteq> []" and "find_sub old s = Some i"
  then have "s \<noteq> []" by (cases s) auto
  with \<open>old \<noteq> []\<close>
  show "((old, new, drop (i + length old) s), (old, new, s))
          \<in> measure (\<lambda>(old, new, s). length s)"
    by (cases s) auto
qed

declare replace_str.simps [simp del]

text \<open>\<open>join sep xs\<close> is \<open>sep.join(xs)\<close>.\<close>

fun join :: "string \<Rightarrow> string list \<Rightarrow> string" where
  "join sep [] = []"
| "join sep [x] = x"
| "join sep (x # y # ys) = x @ sep @ join sep (y # ys)"

text \<open>
  What \<open>s.lower()\<close> gives on ASCII text: the example worlds below, whose names are
  ASCII, take it for \<open>str.lower\<close>.
\<close>

definition lower_char :: "char \<Rightarrow> char" where
  "lower_char c =
     (let n = (of_char c :: nat) in if 65 \<le> n \<and> n \<le> 90 then char_of (n + 32) else c)"

definition lower_ascii :: "string \<Rightarrow> string" where
  "lower_ascii s = map lower_char s"

section \<open>Python values and exceptions\<close>

text \<open>
  The values that \<open>response.json()\<close> and \<open>yaml.safe_load\<close> return. A \<open>dict\<close> is an
  association list in insertion order; \<open>dict_get\<close> reads the first binding of a key.
\<close>

datatype pyval =
    PNone
  | PBool bool
  | PInt int
  | PFloat real
  | PStr string
  | PList "pyval list"
  | PDict "(pyval \<times> pyval) list"

text \<open>The exception classes the source can meet, each a subclass of \<open>Exception\<close>.\<close>

datatype exn =
    ValueError
  | KeyError
  | IndexError
  | TypeError
  | AttributeError
  | RecursionError
  | OSError
  | YAMLError
  | DecodeError
  | RequestException

text \<open>
  \<open>requests.exceptions.RequestException\<close> and its subclasses (connection errors,
  timeouts, \<open>HTTPError\<close> from \<open>raise_for_status\<close>, \<open>JSONDecodeError\<close> from
  \<open>response.json()\<close>, \<open>MissingSchema\<close>) are the one constructor \<open>RequestException\<close>.
\<close>

definition is_request_exception :: "exn \<Rightarrow> bool" where
  "is_request_exception e = (e = RequestException)"

definition bind :: "exn + 'a \<Rightarrow> ('a \<Rightarrow> exn + 'b) \<Rightarrow> exn + 'b" where
  "bind m f = (case m of Inl e \<Rightarrow> Inl e | Inr x \<Rightarrow> f x)"

text \<open>Truthiness, as \<open>if x:\<close> and \<open>x or y\<close> test it.\<close>

fun truthy :: "pyval \<Rightarrow> bool" where
  "truthy PNone = False"
| "truthy (PBool b) = b"
| "truthy (PInt i) = (i \<noteq> 0)"
| "truthy (PFloat r) = (r \<noteq> 0)"
| "truthy (PStr s) = (s \<noteq> [])"
| "truthy (PList xs) = (xs \<noteq> [])"
| "truthy (PDict kvs) = (kvs \<noteq> [])"

text \<open>\<open>d.get(k)\<close>, \<open>d.get(k, default)\<close>, \<open>d[k]\<close> and \<open>k in d\<close> for a \<open>dict\<close>
  \<open>d\<close> with the string key \<open>k\<close>.\<close>

definition dict_get :: "(pyval \<times> pyval) list \<Rightarrow> string \<Rightarrow> pyval" where
  "dict_get d k = (case map_of d (PStr k) of None \<Rightarrow> PNone | Some v \<Rightarrow> v)"

definition dict_get_default :: "(pyval \<times> pyval) list \<Rightarrow> string \<Rightarrow> pyval \<Rightarrow> pyval" where
  "dict_get_default d k dflt = (case map_of d (PStr k) of None \<Rightarrow> dflt | Some v \<Rightarrow> v)"

definition dict_index :: "(pyval \<times> pyval) list \<Rightarrow> string \<Rightarrow> exn + pyval" where
  "dict_index d k = (case map_of d (PStr k) of None \<Rightarrow> Inl KeyError | Some v \<Rightarrow> Inr v)"

definition dict_has :: "(pyval \<times> pyval) list \<Rightarrow> string \<Rightarrow> bool" where
  "dict_has d k = (map_of d (PStr k) \<noteq> None)"

text \<open>\<open>v == s\<close> for a string literal \<open>s\<close>.\<close>

definition eq_str :: "pyval \<Rightarrow> string \<Rightarrow> bool" where
  "eq_str v s = (v = PStr s)"

section \<open>The world outside the program\<close>

text \<open>
  What \<open>requests.get\<close> does for a URL: it raises a \<open>RequestException\<close>, or returns a
  response with a status code, the JSON value of its body (\<open>None\<close> when the body is not
  JSON) and the body's bytes.
\<close>

record response =
  status_code :: nat
  json_body :: "pyval option"
  content :: string

datatype http_result = Raises | Response response

text \<open>
  A local path as \<open>pathlib\<close> keeps it: an anchor (a temporary directory \<open>mkdtemp\<close>
  made, the root \<open>/\<close>, or the root \<open>//\<close>) followed by components, none of which is
  empty, is \<open>.\<close> or holds a slash.
\<close>

datatype pypath = TmpDir nat | Root | DoubleRoot | Join pypath string

text \<open>
  \<open>p / s\<close> for a \<open>str\<close> \<open>s\<close>: \<open>pathlib\<close> splits \<open>s\<close> at the slashes, drops the
  empty components and the components \<open>.\<close>, and appends the rest to \<open>p\<close>; an \<open>s\<close>
  that starts with a slash is absolute and replaces \<open>p\<close>.
\<close>

definition path_parts :: "string \<Rightarrow> string list" where
  "path_parts s = filter (\<lambda>c. c \<noteq> [] \<and> c \<noteq> ''.'') (split_str ''/'' s)"

definition join_path :: "pypath \<Rightarrow> string \<Rightarrow> pypath" where
  "join_path p s =
     (if startswith ''/'' s then
        foldl Join (if startswith ''//'' s \<and> \<not> startswith ''///'' s then DoubleRoot else Root)
          (path_parts s)
      else foldl Join p (path_parts s))"

text \<open>
  Everything the program reads from outside: the environment variable
  \<open>WINWIN_SKILLS_REPO\<close>, the HTTP server (by URL and the \<open>ref\<close> query parameter, which
  the raw downloads do not send), \<open>yaml.safe_load\<close>, \<open>base64.b64decode(...).decode("utf-8")\<close>,
  the built-in \<open>str\<close> on values that are not strings, the method \<open>str.lower\<close>
  (which folds every cased letter of Unicode), whether a file can be written at a
  path, whether \<open>mkdtemp\<close> succeeds, and how deep calls may nest before Python raises
  \<open>RecursionError\<close>.
\<close>

record world =
  environ_repo :: "string option"
  http_get :: "string \<Rightarrow> string option \<Rightarrow> http_result"
  yaml_safe_load :: "string \<Rightarrow> exn + pyval"
  b64decode_utf8 :: "pyval \<Rightarrow> exn + string"
  str_of :: "pyval \<Rightarrow> string"
  str_lower :: "string \<Rightarrow> string"
  write_ok :: "pypath \<Rightarrow> bool"
  mkdtemp_ok :: bool
  recursion_limit :: nat

text \<open>An interpolation \<open>{v}\<close> in an f-string.\<close>

definition fmt :: "world \<Rightarrow> pyval \<Rightarrow> string" where
  "fmt w v = (case v of PStr s \<Rightarrow> s | _ \<Rightarrow> str_of w v)"

section \<open>Resolving a skill spec\<close>

text \<open>\<open>_get_default_skills_repo\<close>.\<close>

definition get_default_skills_repo :: "world \<Rightarrow> string" where
  "get_default_skills_repo w =
     (case environ_repo w of None \<Rightarrow> ''heibaibufen/winwin-skills'' | Some s \<Rightarrow> s)"

text \<open>\<open>repo_override or _get_default_skills_repo()\<close>, for an \<open>Optional[str]\<close>.\<close>

definition override_or_default :: "world \<Rightarrow> string option \<Rightarrow> string" where
  "override_or_default w repo_override =
     (case repo_override of
        None \<Rightarrow> get_default_skills_repo w
      | Some r \<Rightarrow> if r \<noteq> [] then r else get_default_skills_repo w)"

text \<open>The tuple assignment \<open>owner, repo = xs\<close>.\<close>

definition unpack2 :: "string list \<Rightarrow> exn + (string \<times> string)" where
  "unpack2 xs = (case xs of [a, b] \<Rightarrow> Inr (a, b) | _ \<Rightarrow> Inl ValueError)"

text \<open>\<open>xs[0]\<close> and \<open>xs[-1]\<close>.\<close>

definition first :: "'a list \<Rightarrow> exn + 'a" where
  "first xs = (case xs of [] \<Rightarrow> Inl IndexError | x # _ \<Rightarrow> Inr x)"

definition final :: "'a list \<Rightarrow> exn + 'a" where
  "final xs = (if xs = [] then Inl IndexError else Inr (last xs))"

definition github_prefix :: string where
  "github_prefix = ''https://github.com/''"

text \<open>
  Lines 335 to 369 of \<open>_resolve_and_download_skill\<close>: the owner, repository, path and
  ref that are handed to \<open>_download_skill_from_github\<close>, or the exception raised on
  the way.
\<close>

definition resolve ::
  "world \<Rightarrow> string \<Rightarrow> string \<Rightarrow> string option \<Rightarrow> exn + (string \<times> string \<times> string \<times> string)"
where
  "resolve w skill_spec ref repo_override =
     (if startswith github_prefix skill_spec then
        (let parts = split_str ''/tree/'' (replace_str github_prefix [] skill_spec) in
         bind (first parts) (\<lambda>repo_path.
           if length parts > 1 then
             bind (first (split_str ''/'' (parts ! 1))) (\<lambda>ref'.
               let skill_name = join ''/'' (drop 1 (split_str ''/'' (parts ! 1))) in
               bind (unpack2 (split_str ''/'' repo_path)) (\<lambda>(owner, repo).
                 Inr (owner, repo, skill_name, ref')))
           else
             bind (final (split_str ''/'' repo_path)) (\<lambda>skill_name.
               let repo_path' = join ''/'' (butlast (split_str ''/'' repo_path)) in
               bind (unpack2 (split_str ''/'' repo_path')) (\<lambda>(owner, repo).
                 Inr (owner, repo, skill_name, ref)))))
      else if contains ''/'' skill_spec then
        (let parts = split_str ''/'' skill_spec in
         if length parts \<ge> 3 then
           Inr (parts ! 0, parts ! 1, join ''/'' (drop 2 parts), ref)
         else if (case repo_override of None \<Rightarrow> False | Some r \<Rightarrow> r \<noteq> []) then
           bind (unpack2 (split_str ''/'' (the repo_override))) (\<lambda>(owner, repo).
             Inr (owner, repo, skill_spec, ref))
         else
           bind (unpack2 (split_str ''/'' (get_default_skills_repo w))) (\<lambda>(owner, repo).
             Inr (owner, repo, skill_spec, ref)))
      else
        bind (unpack2 (split_str ''/'' (override_or_default w repo_override))) (\<lambda>(owner, repo).
          Inr (owner, repo, skill_spec, ref)))"

section \<open>Front matter\<close>

text \<open>A \<open>try: body except Exception: handler\<close> block.\<close>

definition catch :: "exn + 'a \<Rightarrow> (exn \<Rightarrow> exn + 'a) \<Rightarrow> exn + 'a" where
  "catch m h = (case m of Inl e \<Rightarrow> h e | Inr x \<Rightarrow> Inr x)"

text \<open>
  \<open>_parse_skill_metadata_from_content\<close>. \<open>yaml.safe_load\<close> is the world's; the result
  is \<open>Inr\<close> of the value returned, and \<open>Inl\<close> would be an exception leaving the function.
\<close>

definition parse_skill_metadata_from_content :: "world \<Rightarrow> string \<Rightarrow> exn + pyval" where
  "parse_skill_metadata_from_content w doc =
     catch
       (if startswith ''---'' doc then
          (let parts = split_max ''---'' 2 doc in
           if length parts \<ge> 3 then
             bind (yaml_safe_load w (parts ! 1)) (\<lambda>v. Inr (if truthy v then v else PDict []))
           else Inr (PDict []))
        else Inr (PDict []))
       (\<lambda>e. Inr (PDict []))"

section \<open>The file system and the messages printed\<close>

text \<open>
  The part of the file system the program touches: how many temporary directories
  \<open>mkdtemp\<close> has made (the next one is \<open>TmpDir (created fs)\<close>), which of them still
  exist, and the files written below them.
\<close>

record fs =
  created :: nat
  live :: "nat list"
  files :: "(pypath \<times> string) list"

text \<open>The temporary directory a path lies in, if any.\<close>

fun root_of :: "pypath \<Rightarrow> nat option" where
  "root_of (TmpDir n) = Some n"
| "root_of Root = None"
| "root_of DoubleRoot = None"
| "root_of (Join p name) = root_of p"

text \<open>\<open>is_under p q\<close>: \<open>q\<close> is \<open>p\<close> or lies below \<open>p\<close>.\<close>

fun is_under :: "pypath \<Rightarrow> pypath \<Rightarrow> bool" where
  "is_under p (TmpDir n) = (p = TmpDir n)"
| "is_under p Root = (p = Root)"
| "is_under p DoubleRoot = (p = DoubleRoot)"
| "is_under p (Join q name) = (p = Join q name \<or> is_under p q)"

text \<open>Every directory and file recorded was made by an earlier \<open>mkdtemp\<close>.\<close>

definition fs_ok :: "fs \<Rightarrow> bool" where
  "fs_ok st = (list_all (\<lambda>n. n < created st) (live st)
               \<and> list_all (\<lambda>(p, c). case root_of p of None \<Rightarrow> True | Some n \<Rightarrow> n < created st)
                     (files st))"

text \<open>\<open>Path(tempfile.mkdtemp(prefix="winwin_skill_"))\<close>.\<close>

definition mkdtemp :: "world \<Rightarrow> fs \<Rightarrow> exn + (fs \<times> pypath)" where
  "mkdtemp w st =
     (if mkdtemp_ok w
      then Inr (st\<lparr>created := Suc (created st), live := created st # live st\<rparr>,
                TmpDir (created st))
      else Inl OSError)"

text \<open>\<open>shutil.rmtree(temp_dir, ignore_errors=True)\<close>.\<close>

definition rmtree :: "fs \<Rightarrow> pypath \<Rightarrow> fs" where
  "rmtree st p =
     st\<lparr>live := (case p of TmpDir n \<Rightarrow> removeAll n (live st) | _ \<Rightarrow> live st),
        files := filter (\<lambda>(q, c). \<not> is_under p q) (files st)\<rparr>"

text \<open>
  \<open>p.exists()\<close>: a temporary directory that has not been removed, or a path at or below
  which a file has been written.
\<close>

definition path_exists :: "fs \<Rightarrow> pypath \<Rightarrow> bool" where
  "path_exists st p =
     ((case root_of p of None \<Rightarrow> True | Some n \<Rightarrow> n \<in> set (live st)) \<and>
      (case p of Join q name \<Rightarrow> list_ex (\<lambda>(q, c). is_under p q) (files st) | _ \<Rightarrow> True))"

text \<open>Creating the parent directories and writing the bytes to \<open>file_path\<close>.\<close>

definition write_file :: "fs \<Rightarrow> pypath \<Rightarrow> string \<Rightarrow> fs" where
  "write_file st p c = st\<lparr>files := (p, c) # filter (\<lambda>(q, c'). q \<noteq> p) (files st)\<rparr>"

text \<open>One constructor for each \<open>click.echo\<close> of the functions modelled.\<close>

datatype msg =
    EchoResolving string string string string
  | ErrDownloadSkill exn
  | EchoAnalysing
  | ErrNoFiles
  | EchoDownloading nat
  | EchoProgress nat nat
  | ErrFileFailed pyval "exn option"
  | WarnFailedCount nat
  | WarnNoSkillMd
  | ErrGithubDownload exn
  | WarnUnexpectedFormat
  | ErrMessage pyval
  | ErrDocumentation pyval
  | WarnMetadata pyval pyval exn
  | WarnSkill pyval pyval exn
  | WarnCategory pyval exn
  | ErrListSkills exn
  | Traceback
  | ErrFindSkill exn

section \<open>HTTP requests\<close>

text \<open>
  \<open>requests.get(url, ...)\<close>. A URL read from JSON that is not a string has no scheme
  once \<open>requests\<close> has applied \<open>str\<close> to it, which raises \<open>MissingSchema\<close> or
  \<open>InvalidURL\<close>.
\<close>

definition requests_get :: "world \<Rightarrow> pyval \<Rightarrow> string option \<Rightarrow> exn + response" where
  "requests_get w url ref =
     (case url of
        PStr u \<Rightarrow> (case http_get w u ref of Raises \<Rightarrow> Inl RequestException | Response r \<Rightarrow> Inr r)
      | _ \<Rightarrow> Inl RequestException)"

text \<open>\<open>response.raise_for_status()\<close> and \<open>response.json()\<close>.\<close>

definition raise_for_status :: "response \<Rightarrow> exn + unit" where
  "raise_for_status r =
     (if 400 \<le> status_code r \<and> status_code r < 600 then Inl RequestException else Inr ())"

definition response_json :: "response \<Rightarrow> exn + pyval" where
  "response_json r = (case json_body r of None \<Rightarrow> Inl RequestException | Some v \<Rightarrow> Inr v)"

text \<open>\<open>local_dir / name\<close> for a value read from JSON: \<open>pathlib\<close> accepts a \<open>str\<close>
  only.\<close>

definition path_join :: "pypath \<Rightarrow> pyval \<Rightarrow> exn + pypath" where
  "path_join p name = (case name of PStr s \<Rightarrow> Inr (join_path p s) | _ \<Rightarrow> Inl TypeError)"

section \<open>Listing the remote tree\<close>

text \<open>An element of \<open>files_to_download\<close>: download URL, local path, display path.\<close>

type_synonym job = "pyval \<times> pypath \<times> pyval"

text \<open>
  \<open>_collect_files\<close>, nested in \<open>_download_skill_from_github\<close>. The list
  \<open>files_to_download\<close> of the enclosing function is passed in and returned with the
  exception raised, if any. The first argument after the ref is the number of nested calls
  Python still allows; with none left the call raises \<open>RecursionError\<close>.
  \<open>collect_items\<close> is the \<open>for item in items\<close> loop and \<open>collect_item\<close> its body.
\<close>

function collect_files ::
    "world \<Rightarrow> string \<Rightarrow> nat \<Rightarrow> pyval \<Rightarrow> pypath \<Rightarrow> job list \<Rightarrow> job list \<times> exn option"
  and collect_items ::
    "world \<Rightarrow> string \<Rightarrow> nat \<Rightarrow> pyval list \<Rightarrow> pypath \<Rightarrow> job list \<Rightarrow> job list \<times> exn option"
  and collect_item ::
    "world \<Rightarrow> string \<Rightarrow> nat \<Rightarrow> pyval \<Rightarrow> pypath \<Rightarrow> job list \<Rightarrow> job list \<times> exn option"
where
  "collect_files w ref 0 api_url local_dir acc = (acc, Some RecursionError)"
| "collect_files w ref (Suc n) api_url local_dir acc =
     (case requests_get w api_url (Some ref) of
        Inl e \<Rightarrow> (acc, Some e)
      | Inr response \<Rightarrow>
          (case raise_for_status response of
             Inl e \<Rightarrow> (acc, Some e)
           | Inr u \<Rightarrow>
               (case response_json response of
                  Inl e \<Rightarrow> (acc, Some e)
                | Inr items \<Rightarrow>
                    collect_items w ref n (case items of PList xs \<Rightarrow> xs | v \<Rightarrow> [v])
                      local_dir acc)))"
| "collect_items w ref n [] local_dir acc = (acc, None)"
| "collect_items w ref n (item # rest) local_dir acc =
     (case collect_item w ref n item local_dir acc of
        (acc', Some e) \<Rightarrow> (acc', Some e)
      | (acc', None) \<Rightarrow> collect_items w ref n rest local_dir acc')"
| "collect_item w ref n item local_dir acc =
     (case item of
        PDict d \<Rightarrow>
          if eq_str (dict_get d ''type'') ''file'' then
            (let download_url = dict_get d ''download_url'' in
             if truthy download_url then
               (case bind (dict_index d ''name'') (path_join local_dir) of
                  Inl e \<Rightarrow> (acc, Some e)
                | Inr file_path \<Rightarrow>
                    (acc @ [(download_url, file_path,
                             dict_get_default d ''path'' (dict_get d ''name''))], None))
             else (acc, None))
          else if eq_str (dict_get d ''type'') ''dir'' then
            (case bind (dict_index d ''name'') (path_join local_dir) of
               Inl e \<Rightarrow> (acc, Some e)
             | Inr sub_dir \<Rightarrow>
                 (case dict_index d ''url'' of
                    Inl e \<Rightarrow> (acc, Some e)
                  | Inr url \<Rightarrow> collect_files w ref n url sub_dir acc))
          else (acc, None)
      | _ \<Rightarrow> (acc, Some AttributeError))"
  by pat_completeness auto
termination
  by (relation "inv_image (less_than <*lex*> less_than)
        (\<lambda>x. case x of
           Inl (w, ref, n, api_url, local_dir, acc) \<Rightarrow> (n, 0)
         | Inr (Inl (w, ref, n, items, local_dir, acc)) \<Rightarrow> (n, 2 + length items)
         | Inr (Inr (w, ref, n, item, local_dir, acc)) \<Rightarrow> (n, 1))")
     auto

text \<open>
  The listing as the \<open>try\<close> block of \<open>_download_skill_from_github\<close> sees it: the files
  collected, or the exception that reaches the \<open>except\<close> clause, which does not read
  \<open>files_to_download\<close>.
\<close>

definition list_tree :: "world \<Rightarrow> string \<Rightarrow> string \<Rightarrow> pypath \<Rightarrow> exn + job list" where
  "list_tree w ref api_base temp_dir =
     (case collect_files w ref (recursion_limit w) (PStr api_base) temp_dir [] of
        (files_to_download, None) \<Rightarrow> Inr files_to_download
      | (files_to_download, Some e) \<Rightarrow> Inl e)"

section \<open>Downloading the files\<close>

text \<open>
  \<open>_download_file\<close>: the pair returned is kept as success flag, display path and the
  exception caught (Python formats the last two into one string).
\<close>

type_synonym outcome = "bool \<times> pyval \<times> exn option"

text \<open>The \<open>try\<close> body of \<open>_download_file\<close> up to the write: the response to store.\<close>

definition attempt :: "world \<Rightarrow> job \<Rightarrow> exn + response" where
  "attempt w args =
     (case args of (download_url, file_path, display_path) \<Rightarrow>
        bind (requests_get w download_url None) (\<lambda>response.
          bind (raise_for_status response) (\<lambda>u.
            if write_ok w file_path then Inr response else Inl OSError)))"

definition download_file :: "world \<Rightarrow> fs \<Rightarrow> job \<Rightarrow> fs \<times> outcome" where
  "download_file w st args =
     (case args of (download_url, file_path, display_path) \<Rightarrow>
        (case attempt w args of
           Inl e \<Rightarrow> (st, (False, display_path, Some e))
         | Inr response \<Rightarrow>
             (write_file st file_path (content response), (True, display_path, None))))"



text \<open>
  \<open>as_completed(futures)\<close> on a \<open>ThreadPoolExecutor\<close>: every submitted future is
  yielded once, in the order the futures complete. That order is the scheduler's: of the
  futures still pending, the next to complete is the one at the position the next pick
  names (modulo the number pending; the first, once the picks are used up).
\<close>

function as_completed :: "'a list \<Rightarrow> nat list \<Rightarrow> 'a list" where
  "as_completed pending picks =
     (if pending = [] then []
      else
        (let i = (case picks of [] \<Rightarrow> 0 | p # ps \<Rightarrow> p mod length pending)
         in pending ! i # as_completed (take i pending @ drop (Suc i) pending) (tl picks)))"
  by pat_completeness auto
termination
proof (relation "measure (\<lambda>(pending, picks). length pending)")
  show "wf (measure (\<lambda>(pending, picks). length pending))" by simp
next
  fix pending :: "'a list" and picks :: "nat list" and i
  assume ne: "pending \<noteq> []"
    and i: "i = (case picks of [] \<Rightarrow> 0 | p # ps \<Rightarrow> p mod length pending)"
  from ne have "0 < length pending" by simp
  then have "i < length pending" unfolding i by (cases picks) simp_all
  then show "((take i pending @ drop (Suc i) pending, tl picks), (pending, picks))
               \<in> measure (\<lambda>(pending, picks). length pending)"
    by simp
qed

declare as_completed.simps [simp del]

text \<open>
  The body of \<open>for future in as_completed(futures)\<close>, over the jobs in completion
  order. The state is the file system, the messages, the values \<open>future.result()\<close> has
  returned, and the counters \<open>completed\<close> and \<open>failed\<close>.
\<close>

fun fetch_loop ::
  "world \<Rightarrow> nat \<Rightarrow> job list \<Rightarrow> fs \<times> msg list \<times> outcome list \<times> nat \<times> nat
     \<Rightarrow> fs \<times> msg list \<times> outcome list \<times> nat \<times> nat"
where
  "fetch_loop w n_files [] acc = acc"
| "fetch_loop w n_files (args # rest) (st, msgs, results, completed, failed) =
     (let completed' = completed + 1;
          (st', success, result, err) = download_file w st args
      in
        if success then
          fetch_loop w n_files rest
            (st',
             (if completed' mod max 1 (n_files div 10) = 0 \<or> completed' = n_files
              then msgs @ [EchoProgress completed' n_files] else msgs),
             results @ [(success, result, err)], completed', failed)
        else
          fetch_loop w n_files rest
            (st', msgs @ [ErrFileFailed result err],
             results @ [(success, result, err)], completed', failed + 1))"

text \<open>The \<open>with ThreadPoolExecutor(max_workers=10)\<close> block.\<close>

definition fetch_all ::
  "world \<Rightarrow> nat list \<Rightarrow> fs \<Rightarrow> job list \<Rightarrow> fs \<times> msg list \<times> outcome list \<times> nat \<times> nat"
where
  "fetch_all w picks st files_to_download =
     fetch_loop w (length files_to_download) (as_completed files_to_download picks)
       (st, [], [], 0, 0)"

text \<open>\<open>f"https://api.github.com/repos/{owner}/{repo}/contents/{skill_path}"\<close>.\<close>

definition contents_url :: "string \<Rightarrow> string \<Rightarrow> string \<Rightarrow> string" where
  "contents_url owner repo skill_path =
     ''https://api.github.com/repos/'' @ owner @ ''/'' @ repo @ ''/contents/'' @ skill_path"

text \<open>
  \<open>_download_skill_from_github\<close>. The result is the file system, the messages and the
  value returned (\<open>None\<close> or the temporary directory); \<open>Inl\<close> is an exception that
  leaves the function, which only \<open>mkdtemp\<close>, ahead of the \<open>try\<close>, can raise.
\<close>

definition download_skill_from_github ::
  "world \<Rightarrow> nat list \<Rightarrow> fs \<Rightarrow> string \<Rightarrow> string \<Rightarrow> string \<Rightarrow> string
     \<Rightarrow> exn + (fs \<times> msg list \<times> pypath option)"
where
  "download_skill_from_github w picks st owner repo skill_path ref =
     bind (mkdtemp w st) (\<lambda>(st1, temp_dir).
       let api_base = contents_url owner repo skill_path
       in
         case list_tree w ref api_base temp_dir of
           Inl e \<Rightarrow> Inr (rmtree st1 temp_dir, [EchoAnalysing, ErrGithubDownload e], None)
         | Inr files_to_download \<Rightarrow>
             if files_to_download = [] then
               Inr (rmtree st1 temp_dir, [EchoAnalysing, ErrNoFiles], None)
             else
               (case fetch_all w picks st1 files_to_download of
                  (st2, msgs, results, completed, failed) \<Rightarrow>
                    Inr (st2,
                         [EchoAnalysing, EchoDownloading (length files_to_download)] @ msgs
                           @ (if failed > 0 then [WarnFailedCount failed] else [])
                           @ (if \<not> path_exists st2 (join_path temp_dir ''SKILL.md'')
                              then [WarnNoSkillMd] else []),
                         Some temp_dir)))"

text \<open>
  \<open>_resolve_and_download_skill\<close>. Its local \<open>temp_dir\<close> is assigned only when
  \<open>_download_skill_from_github\<close> returns, so it is still \<open>None\<close> whenever the
  \<open>except\<close> clause runs.
\<close>

definition resolve_and_download_skill ::
  "world \<Rightarrow> nat list \<Rightarrow> fs \<Rightarrow> string \<Rightarrow> string \<Rightarrow> string option
     \<Rightarrow> fs \<times> msg list \<times> pypath option"
where
  "resolve_and_download_skill w picks st skill_spec ref repo_override =
     (let temp_dir = (None :: pypath option) in
      case resolve w skill_spec ref repo_override of
        Inl e \<Rightarrow>
          ((case temp_dir of
              None \<Rightarrow> st
            | Some d \<Rightarrow> if path_exists st d then rmtree st d else st),
           [ErrDownloadSkill e], None)
      | Inr (owner, repo, skill_path, ref') \<Rightarrow>
          (case download_skill_from_github w picks st owner repo skill_path ref' of
             Inl e \<Rightarrow>
               ((case temp_dir of
                   None \<Rightarrow> st
                 | Some d \<Rightarrow> if path_exists st d then rmtree st d else st),
                [EchoResolving owner repo skill_path ref', ErrDownloadSkill e], None)
           | Inr (st', msgs, result) \<Rightarrow>
               (st', EchoResolving owner repo skill_path ref' # msgs, result)))"

section \<open>Comparing Python values\<close>

text \<open>The number a \<open>bool\<close>, \<open>int\<close> or \<open>float\<close> stands for.\<close>

fun num_of :: "pyval \<Rightarrow> real option" where
  "num_of (PBool b) = Some (if b then 1 else 0)"
| "num_of (PInt i) = Some (of_int i)"
| "num_of (PFloat r) = Some r"
| "num_of v = None"

text \<open>
  \<open>a == b\<close>: numbers by value, strings and \<open>None\<close> by identity of value, lists item by
  item, dicts as mappings (the same number of items, and every item of the one an item of
  the other).
\<close>

function py_eq :: "pyval \<Rightarrow> pyval \<Rightarrow> bool"
  and py_eq_list :: "pyval list \<Rightarrow> pyval list \<Rightarrow> bool"
  and py_dict_le :: "(pyval \<times> pyval) list \<Rightarrow> (pyval \<times> pyval) list \<Rightarrow> bool"
  and py_dict_has :: "pyval \<Rightarrow> pyval \<Rightarrow> (pyval \<times> pyval) list \<Rightarrow> bool"
where
  "py_eq a b =
     (case a of
        PStr s \<Rightarrow> (case b of PStr t \<Rightarrow> s = t | _ \<Rightarrow> False)
      | PNone \<Rightarrow> (case b of PNone \<Rightarrow> True | _ \<Rightarrow> False)
      | PList xs \<Rightarrow> (case b of PList ys \<Rightarrow> py_eq_list xs ys | _ \<Rightarrow> False)
      | PDict d \<Rightarrow>
          (case b of PDict d' \<Rightarrow> length d = length d' \<and> py_dict_le d d' | _ \<Rightarrow> False)
      | _ \<Rightarrow> (case (num_of a, num_of b) of (Some x, Some y) \<Rightarrow> x = y | _ \<Rightarrow> False))"
| "py_eq_list [] [] = True"
| "py_eq_list (x # xs) [] = False"
| "py_eq_list [] (y # ys) = False"
| "py_eq_list (x # xs) (y # ys) = (py_eq x y \<and> py_eq_list xs ys)"
| "py_dict_le [] d' = True"
| "py_dict_le ((k, v) # d) d' = (py_dict_has k v d' \<and> py_dict_le d d')"
| "py_dict_has k v [] = False"
| "py_dict_has k v ((k', v') # d') = ((py_eq k k' \<and> py_eq v v') \<or> py_dict_has k v d')"
  by pat_completeness auto
termination
  by (relation "measure (\<lambda>x. case x of
           Inl (Inl (a, b)) \<Rightarrow> size a + size b
         | Inl (Inr (xs, ys)) \<Rightarrow> size_list size xs + size_list size ys
         | Inr (Inl (d, d')) \<Rightarrow>
             size_list (size_prod size size) d + size_list (size_prod size size) d'
         | Inr (Inr (k, v, d')) \<Rightarrow> size k + size v + size_list (size_prod size size) d')")
     auto

declare py_eq.simps [simp del]

text \<open>
  \<open>a < b\<close>: defined between numbers, between strings (by code point, a proper prefix
  first) and between lists (at the first pair of items that are not equal); any other pair
  raises \<open>TypeError\<close>. Tuples compare as lists do.
\<close>

function py_lt :: "pyval \<Rightarrow> pyval \<Rightarrow> exn + bool"
  and py_lt_list :: "pyval list \<Rightarrow> pyval list \<Rightarrow> exn + bool"
where
  "py_lt a b =
     (case a of
        PStr s \<Rightarrow> (case b of PStr t \<Rightarrow> Inr (s < t) | _ \<Rightarrow> Inl TypeError)
      | PList xs \<Rightarrow> (case b of PList ys \<Rightarrow> py_lt_list xs ys | _ \<Rightarrow> Inl TypeError)
      | _ \<Rightarrow> (case (num_of a, num_of b) of (Some x, Some y) \<Rightarrow> Inr (x < y) | _ \<Rightarrow> Inl TypeError))"
| "py_lt_list [] [] = Inr False"
| "py_lt_list [] (y # ys) = Inr True"
| "py_lt_list (x # xs) [] = Inr False"
| "py_lt_list (x # xs) (y # ys) = (if py_eq x y then py_lt_list xs ys else py_lt x y)"
  by pat_completeness auto
termination
  by (relation "measure (\<lambda>x. case x of
           Inl (a, b) \<Rightarrow> size a + size b
         | Inr (xs, ys) \<Rightarrow> size_list size xs + size_list size ys)")
     auto

declare py_lt.simps [simp del]

section \<open>The skill catalog\<close>

text \<open>
  A dict appended to \<open>skills\<close>: its keys are always the same six, so it is a record. The
  description defaults to the three-character literal of the source, here in UTF-8.
\<close>

record listing =
  sk_name :: pyval
  sk_description :: pyval
  sk_version :: pyval
  sk_author :: pyval
  sk_category :: pyval
  sk_path :: string

definition no_description :: string where
  "no_description = map char_of [230, 151, 160, 230, 143, 143, 232, 191, 176 :: nat]"

text \<open>
  \<open>sorted(skills, key=lambda x: (x.get("category", ""), x["name"]))\<close>. The sort is
  stable and uses \<open><\<close> on the keys only; it is modelled as the insertion sort that
  raises when a comparison it makes raises. On keys that \<open><\<close> orders totally this is
  the list Python returns.
\<close>

definition sort_key_of :: "listing \<Rightarrow> pyval list" where
  "sort_key_of x = [sk_category x, sk_name x]"

fun insort_py :: "listing \<Rightarrow> listing list \<Rightarrow> exn + listing list" where
  "insort_py x [] = Inr [x]"
| "insort_py x (y # ys) =
     bind (py_lt_list (sort_key_of y) (sort_key_of x)) (\<lambda>lt.
       if lt then bind (insort_py x ys) (\<lambda>r. Inr (y # r)) else Inr (x # y # ys))"

fun py_sorted :: "listing list \<Rightarrow> exn + listing list" where
  "py_sorted [] = Inr []"
| "py_sorted (x # xs) = bind (py_sorted xs) (insort_py x)"

text \<open>\<open>isinstance(skill_items, list) and any(i.get("name") == "SKILL.md" for i in
  skill_items if isinstance(i, dict))\<close>.\<close>

definition has_skill_md :: "pyval \<Rightarrow> bool" where
  "has_skill_md skill_items =
     (case skill_items of
        PList xs \<Rightarrow>
          list_ex (\<lambda>i. case i of PDict d \<Rightarrow> eq_str (dict_get d ''name'') ''SKILL.md'' | _ \<Rightarrow> False) xs
      | _ \<Rightarrow> False)"

text \<open>The \<open>try\<close> body that reads the manifest: the new value of \<open>metadata\<close>.\<close>

definition fetch_metadata :: "world \<Rightarrow> response \<Rightarrow> exn + pyval" where
  "fetch_metadata w md_response =
     bind (response_json md_response) (\<lambda>md_content.
       case md_content of
         PDict d \<Rightarrow>
           if eq_str (dict_get d ''encoding'') ''base64'' then
             bind (dict_index d ''content'') (\<lambda>c.
               bind (b64decode_utf8 w c) (\<lambda>decoded.
                 parse_skill_metadata_from_content w decoded))
           else Inr (PDict [])
       | _ \<Rightarrow> Inr (PDict []))"

text \<open>The dict literal appended to \<open>skills\<close>; \<open>metadata.get\<close> needs a dict.\<close>

definition make_listing ::
  "world \<Rightarrow> string \<Rightarrow> pyval \<Rightarrow> pyval \<Rightarrow> (pyval \<times> pyval) list \<Rightarrow> exn + listing"
where
  "make_listing w repo category_name metadata item =
     (case metadata of
        PDict m \<Rightarrow>
          bind (dict_index item ''name'') (\<lambda>item_name.
            Inr \<lparr> sk_name = dict_get_default m ''name'' item_name,
                  sk_description = dict_get_default m ''description'' (PStr no_description),
                  sk_version = dict_get_default m ''version'' (PStr ''N/A''),
                  sk_author = dict_get_default m ''author'' (PStr ''N/A''),
                  sk_category = category_name,
                  sk_path = repo @ ''/'' @ fmt w category_name @ ''/'' @ fmt w item_name \<rparr>)
      | _ \<Rightarrow> Inl AttributeError)"

text \<open>
  The functions below thread the messages printed and the list \<open>skills\<close>, and return
  them with the exception that leaves the block, if any.
\<close>

type_synonym catalog_state = "msg list \<times> listing list"

text \<open>\<open>get\<close>, \<open>raise_for_status\<close> and \<open>json\<close> of one listing call.\<close>

definition get_json :: "world \<Rightarrow> string \<Rightarrow> string \<Rightarrow> exn + pyval" where
  "get_json w ref url =
     bind (requests_get w (PStr url) (Some ref)) (\<lambda>response.
       bind (raise_for_status response) (\<lambda>u. response_json response))"

text \<open>The clause \<open>except requests.exceptions.RequestException\<close> of a skill: a warning,
  and \<open>continue\<close>; any other exception goes on.\<close>

definition skill_except :: "pyval \<Rightarrow> pyval \<Rightarrow> catalog_state \<Rightarrow> exn \<Rightarrow> catalog_state \<times> exn option" where
  "skill_except category_name item_name st e =
     (if is_request_exception e
      then ((fst st @ [WarnSkill category_name item_name e], snd st), None)
      else (st, Some e))"

text \<open>\<open>metadata = {}\<close> and the \<open>if md_response.status_code == 200:\<close> block with its
  \<open>try\<close>: the messages and the value of \<open>metadata\<close> after it.\<close>

definition read_metadata ::
  "world \<Rightarrow> pyval \<Rightarrow> pyval \<Rightarrow> response \<Rightarrow> msg list \<Rightarrow> msg list \<times> pyval"
where
  "read_metadata w category_name item_name md_response msgs =
     (if status_code md_response = 200 then
        (case fetch_metadata w md_response of
           Inl e \<Rightarrow> (msgs @ [WarnMetadata category_name item_name e], PDict [])
         | Inr m \<Rightarrow> (msgs, m))
      else (msgs, PDict []))"

text \<open>The body of \<open>if item.get("type") == "dir":\<close> for an item of a category.\<close>

definition list_skill ::
  "world \<Rightarrow> string \<Rightarrow> string \<Rightarrow> pyval \<Rightarrow> string \<Rightarrow> (pyval \<times> pyval) list \<Rightarrow> catalog_state
     \<Rightarrow> catalog_state \<times> exn option"
where
  "list_skill w ref repo category_name category_url item st =
     (case dict_index item ''name'' of
        Inl e \<Rightarrow> (st, Some e)
      | Inr item_name \<Rightarrow>
          (let skill_api_url = category_url @ ''/'' @ fmt w item_name in
             case get_json w ref skill_api_url of
               Inl e \<Rightarrow> skill_except category_name item_name st e
             | Inr skill_items \<Rightarrow>
                 if has_skill_md skill_items then
                   (case requests_get w (PStr (skill_api_url @ ''/SKILL.md'')) (Some ref) of
                      Inl e \<Rightarrow> skill_except category_name item_name st e
                    | Inr md_response \<Rightarrow>
                        (case read_metadata w category_name item_name md_response (fst st) of
                           (msgs', metadata) \<Rightarrow>
                             (case make_listing w repo category_name metadata item of
                                Inl e \<Rightarrow> skill_except category_name item_name (msgs', snd st) e
                              | Inr l \<Rightarrow> ((msgs', snd st @ [l]), None))))
                 else (st, None)))"

text \<open>The loop \<open>for item in items\<close> of a category.\<close>

fun list_items ::
  "world \<Rightarrow> string \<Rightarrow> string \<Rightarrow> pyval \<Rightarrow> string \<Rightarrow> pyval list \<Rightarrow> catalog_state
     \<Rightarrow> catalog_state \<times> exn option"
where
  "list_items w ref repo category_name category_url [] st = (st, None)"
| "list_items w ref repo category_name category_url (item # rest) st =
     (case item of
        PDict d \<Rightarrow>
          if eq_str (dict_get d ''type'') ''dir'' then
            (case list_skill w ref repo category_name category_url d st of
               (st', Some e) \<Rightarrow> (st', Some e)
             | (st', None) \<Rightarrow> list_items w ref repo category_name category_url rest st')
          else list_items w ref repo category_name category_url rest st
      | _ \<Rightarrow> list_items w ref repo category_name category_url rest st)"

text \<open>The clause \<open>except requests.exceptions.RequestException\<close> of a category.\<close>

definition category_except :: "pyval \<Rightarrow> catalog_state \<Rightarrow> exn \<Rightarrow> catalog_state \<times> exn option" where
  "category_except category_name st e =
     (if is_request_exception e
      then ((fst st @ [WarnCategory category_name e], snd st), None)
      else (st, Some e))"

text \<open>The body of \<open>if category.get("type") == "dir":\<close> for an entry of the root.\<close>

definition list_category ::
  "world \<Rightarrow> string \<Rightarrow> string \<Rightarrow> string \<Rightarrow> (pyval \<times> pyval) list \<Rightarrow> catalog_state
     \<Rightarrow> catalog_state \<times> exn option"
where
  "list_category w ref repo api_url category st =
     (case dict_index category ''name'' of
        Inl e \<Rightarrow> (st, Some e)
      | Inr category_name \<Rightarrow>
          (let category_url = api_url @ fmt w category_name in
             case get_json w ref category_url of
               Inl e \<Rightarrow> category_except category_name st e
             | Inr items \<Rightarrow>
                 (case items of
                    PList xs \<Rightarrow>
                      (case list_items w ref repo category_name category_url xs st of
                         (st', Some e) \<Rightarrow> category_except category_name st' e
                       | (st', None) \<Rightarrow> (st', None))
                  | _ \<Rightarrow> (st, None))))"

text \<open>The loop \<open>for category in categories\<close>.\<close>

fun list_categories ::
  "world \<Rightarrow> string \<Rightarrow> string \<Rightarrow> string \<Rightarrow> pyval list \<Rightarrow> catalog_state
     \<Rightarrow> catalog_state \<times> exn option"
where
  "list_categories w ref repo api_url [] st = (st, None)"
| "list_categories w ref repo api_url (category # rest) st =
     (case category of
        PDict d \<Rightarrow>
          if eq_str (dict_get d ''type'') ''dir'' then
            (case list_category w ref repo api_url d st of
               (st', Some e) \<Rightarrow> (st', Some e)
             | (st', None) \<Rightarrow> list_categories w ref repo api_url rest st')
          else list_categories w ref repo api_url rest st
      | _ \<Rightarrow> list_categories w ref repo api_url rest st)"

text \<open>The two \<open>except\<close> clauses of \<open>_list_github_skills\<close>: both return \<open>[]\<close>.\<close>

definition list_failed :: "msg list \<Rightarrow> exn \<Rightarrow> msg list \<times> listing list" where
  "list_failed msgs e =
     (if is_request_exception e then (msgs @ [ErrListSkills e], [])
      else (msgs @ [ErrListSkills e, Traceback], []))"

text \<open>\<open>_list_github_skills\<close> from the point where \<open>categories\<close> is known to be a
  list: the loop over the categories and the sort.\<close>

definition catalog_of ::
  "world \<Rightarrow> string \<Rightarrow> string \<Rightarrow> string \<Rightarrow> pyval list \<Rightarrow> msg list \<times> listing list"
where
  "catalog_of w ref repo api_url categories =
     (case list_categories w ref repo api_url categories ([], []) of
        ((msgs, skills), Some e) \<Rightarrow> list_failed msgs e
      | ((msgs, skills), None) \<Rightarrow>
          (case py_sorted skills of
             Inl e \<Rightarrow> list_failed msgs e
           | Inr result \<Rightarrow> (msgs, result)))"

text \<open>\<open>_list_github_skills\<close>: the messages printed and the list returned.\<close>

definition list_github_skills :: "world \<Rightarrow> string \<Rightarrow> string \<Rightarrow> msg list \<times> listing list" where
  "list_github_skills w repo ref =
     (case unpack2 (split_str ''/'' repo) of
        Inl e \<Rightarrow> list_failed [] e
      | Inr (owner, repo_name) \<Rightarrow>
          (let api_url = ''https://api.github.com/repos/'' @ owner @ ''/'' @ repo_name
                           @ ''/contents/''
           in
             case get_json w ref api_url of
               Inl e \<Rightarrow> list_failed [] e
             | Inr categories \<Rightarrow>
                 (case categories of
                    PList cats \<Rightarrow> catalog_of w ref repo api_url cats
                  | PDict d \<Rightarrow>
                      ([WarnUnexpectedFormat]
                         @ (if dict_has d ''message''
                            then [ErrMessage (dict_get d ''message'')] else [])
                         @ (if dict_has d ''documentation_url''
                            then [ErrDocumentation (dict_get d ''documentation_url'')] else []),
                       [])
                  | _ \<Rightarrow> ([WarnUnexpectedFormat], []))))"

section \<open>Finding a skill by name\<close>

text \<open>The specs that \<open>_find_skill_by_name\<close> builds for a match.\<close>

definition spec_for :: "world \<Rightarrow> string \<Rightarrow> listing \<Rightarrow> string \<Rightarrow> string" where
  "spec_for w default_repo skill found_name =
     (if truthy (sk_category skill)
      then default_repo @ ''/'' @ fmt w (sk_category skill) @ ''/'' @ found_name
      else default_repo @ ''/'' @ found_name)"

text \<open>The first loop: an exact match.\<close>

fun find_exact :: "world \<Rightarrow> string \<Rightarrow> string \<Rightarrow> listing list \<Rightarrow> string option" where
  "find_exact w default_repo skill_name [] = None"
| "find_exact w default_repo skill_name (skill # rest) =
     (if py_eq (sk_name skill) (PStr skill_name)
      then Some (spec_for w default_repo skill skill_name)
      else find_exact w default_repo skill_name rest)"

text \<open>The second loop: \<open>skill_name.lower() in skill.get("name", "").lower()\<close>; a name that
  is not a \<open>str\<close> has no method \<open>lower\<close>.\<close>

fun find_fuzzy :: "world \<Rightarrow> string \<Rightarrow> string \<Rightarrow> listing list \<Rightarrow> exn + string option" where
  "find_fuzzy w default_repo skill_name [] = Inr None"
| "find_fuzzy w default_repo skill_name (skill # rest) =
     (case sk_name skill of
        PStr s \<Rightarrow>
          if contains (str_lower w skill_name) (str_lower w s)
          then Inr (Some (spec_for w default_repo skill s))
          else find_fuzzy w default_repo skill_name rest
      | _ \<Rightarrow> Inl AttributeError)"

text \<open>\<open>_find_skill_by_name\<close>: the messages printed and the value returned.\<close>

definition find_skill_by_name ::
  "world \<Rightarrow> string \<Rightarrow> string \<Rightarrow> string option \<Rightarrow> msg list \<times> string option"
where
  "find_skill_by_name w skill_name ref repo_override =
     (let default_repo = override_or_default w repo_override;
          (msgs, all_skills) = list_github_skills w default_repo ref
      in
        case find_exact w default_repo skill_name all_skills of
          Some found \<Rightarrow> (msgs, Some found)
        | None \<Rightarrow>
            (case find_fuzzy w default_repo skill_name all_skills of
               Inl e \<Rightarrow> (msgs @ [ErrFindSkill e], None)
             | Inr result \<Rightarrow> (msgs, result)))"

section \<open>Notions for stating the properties of the catalog\<close>

text \<open>A value is a \<open>str\<close>; the string it holds.\<close>

definition is_str :: "pyval \<Rightarrow> bool" where
  "is_str v = (case v of PStr s \<Rightarrow> True | _ \<Rightarrow> False)"

definition the_str :: "pyval \<Rightarrow> string" where
  "the_str v = (case v of PStr s \<Rightarrow> s | _ \<Rightarrow> [])"

text \<open>The sort key of a listing whose category and name are strings.\<close>

definition str_key :: "listing \<Rightarrow> string \<times> string" where
  "str_key x = (the_str (sk_category x), the_str (sk_name x))"

text \<open>The category and the name of a listing are strings.\<close>

definition str_keyed :: "listing \<Rightarrow> bool" where
  "str_keyed x = (is_str (sk_category x) \<and> is_str (sk_name x))"

text \<open>The name of a listing is a string that contains the query, both folded by
  \<open>str.lower\<close>.\<close>

definition name_contains :: "world \<Rightarrow> string \<Rightarrow> listing \<Rightarrow> bool" where
  "name_contains w skill_name x =
     (case sk_name x of
        PStr s \<Rightarrow> contains (str_lower w skill_name) (str_lower w s)
      | _ \<Rightarrow> False)"

text \<open>The outcome of a block that was started with no messages and no skills, when it is
  started with \<open>st\<close> instead.\<close>

definition shift_state :: "catalog_state \<Rightarrow> catalog_state \<times> exn option \<Rightarrow> catalog_state \<times> exn option" where
  "shift_state st r = (case r of (st', e) \<Rightarrow> ((fst st @ fst st', snd st @ snd st'), e))"

section \<open>Remote directory trees\<close>

text \<open>
  A remote tree as the spec's \<open>RemoteEntry\<close> describes it: a file with name, remote path
  and optional download URL; a directory with name, remote path, listing URL and the
  entries its listing returns; and a directory whose listing call fails.
\<close>

datatype remote_entry =
    File string string "string option"
  | Directory string string string "remote_entry list"
  | Unlistable string string string

text \<open>The JSON object of the contents API for an entry.\<close>

fun entry_json :: "remote_entry \<Rightarrow> pyval" where
  "entry_json (File name path url) =
     PDict [(PStr ''type'', PStr ''file''), (PStr ''name'', PStr name), (PStr ''path'', PStr path),
            (PStr ''download_url'', (case url of None \<Rightarrow> PNone | Some u \<Rightarrow> PStr u))]"
| "entry_json (Directory name path url children) =
     PDict [(PStr ''type'', PStr ''dir''), (PStr ''name'', PStr name), (PStr ''path'', PStr path),
            (PStr ''url'', PStr url)]"
| "entry_json (Unlistable name path url) =
     PDict [(PStr ''type'', PStr ''dir''), (PStr ''name'', PStr name), (PStr ''path'', PStr path),
            (PStr ''url'', PStr url)]"

text \<open>
  The listing call for \<open>url\<close> succeeds with the given JSON array, or fails (no
  response, or a 4xx or 5xx status).
\<close>

definition listing_ok :: "world \<Rightarrow> string \<Rightarrow> string \<Rightarrow> pyval list \<Rightarrow> bool" where
  "listing_ok w ref url items =
     (case http_get w url (Some ref) of
        Raises \<Rightarrow> False
      | Response r \<Rightarrow>
          \<not> (400 \<le> status_code r \<and> status_code r < 600) \<and> json_body r = Some (PList items))"

definition listing_fails :: "world \<Rightarrow> string \<Rightarrow> string \<Rightarrow> bool" where
  "listing_fails w ref url =
     (case http_get w url (Some ref) of
        Raises \<Rightarrow> True
      | Response r \<Rightarrow> 400 \<le> status_code r \<and> status_code r < 600)"

text \<open>\<open>serves w ref url es\<close>: the server answers the listing calls of the tree whose top
  level, at \<open>url\<close>, holds the entries \<open>es\<close>.\<close>

fun serves :: "world \<Rightarrow> string \<Rightarrow> string \<Rightarrow> remote_entry list \<Rightarrow> bool"
  and serves_below :: "world \<Rightarrow> string \<Rightarrow> remote_entry list \<Rightarrow> bool"
  and serves_entry :: "world \<Rightarrow> string \<Rightarrow> remote_entry \<Rightarrow> bool"
where
  "serves w ref url es = (listing_ok w ref url (map entry_json es) \<and> serves_below w ref es)"
| "serves_below w ref [] = True"
| "serves_below w ref (e # es) = (serves_entry w ref e \<and> serves_below w ref es)"
| "serves_entry w ref (File name path url) = True"
| "serves_entry w ref (Directory name path url children) = serves w ref url children"
| "serves_entry w ref (Unlistable name path url) = listing_fails w ref url"

text \<open>The jobs of a tree, depth first in the order of the listings: one for each file
  that has a non-empty download URL, to be stored at the local directory joined with the
  names on the way to the file.\<close>

fun flatten :: "pypath \<Rightarrow> remote_entry list \<Rightarrow> job list"
  and flatten_entry :: "pypath \<Rightarrow> remote_entry \<Rightarrow> job list"
where
  "flatten local_dir [] = []"
| "flatten local_dir (e # es) = flatten_entry local_dir e @ flatten local_dir es"
| "flatten_entry local_dir (File name path url) =
     (case url of
        None \<Rightarrow> []
      | Some u \<Rightarrow> if u \<noteq> [] then [(PStr u, join_path local_dir name, PStr path)] else [])"
| "flatten_entry local_dir (Directory name path url children) =
     flatten (join_path local_dir name) children"
| "flatten_entry local_dir (Unlistable name path url) = []"

text \<open>The number of nodes that are not directories, and of those among them that have a
  non-empty download URL.\<close>

fun count_files :: "remote_entry list \<Rightarrow> nat"
  and count_files_entry :: "remote_entry \<Rightarrow> nat"
where
  "count_files [] = 0"
| "count_files (e # es) = count_files_entry e + count_files es"
| "count_files_entry (File name path url) = 1"
| "count_files_entry (Directory name path url children) = count_files children"
| "count_files_entry (Unlistable name path url) = 0"

fun count_downloadable :: "remote_entry list \<Rightarrow> nat"
  and count_downloadable_entry :: "remote_entry \<Rightarrow> nat"
where
  "count_downloadable [] = 0"
| "count_downloadable (e # es) = count_downloadable_entry e + count_downloadable es"
| "count_downloadable_entry (File name path url) =
     (case url of None \<Rightarrow> 0 | Some u \<Rightarrow> if u \<noteq> [] then 1 else 0)"
| "count_downloadable_entry (Directory name path url children) = count_downloadable children"
| "count_downloadable_entry (Unlistable name path url) = 0"

text \<open>Whether some listing call of the tree fails, and how deep the listing calls nest.\<close>

fun broken :: "remote_entry list \<Rightarrow> bool"
  and broken_entry :: "remote_entry \<Rightarrow> bool"
where
  "broken [] = False"
| "broken (e # es) = (broken_entry e \<or> broken es)"
| "broken_entry (File name path url) = False"
| "broken_entry (Directory name path url children) = broken children"
| "broken_entry (Unlistable name path url) = True"

fun height :: "remote_entry list \<Rightarrow> nat"
  and height_entry :: "remote_entry \<Rightarrow> nat"
where
  "height [] = 0"
| "height (e # es) = max (height_entry e) (height es)"
| "height_entry (File name path url) = 0"
| "height_entry (Directory name path url children) = Suc (height children)"
| "height_entry (Unlistable name path url) = 1"

section \<open>Example worlds\<close>

definition offline :: world where
  "offline = \<lparr> environ_repo = None, http_get = (\<lambda>url ref. Raises),
      yaml_safe_load = (\<lambda>s. Inl YAMLError), b64decode_utf8 = (\<lambda>v. Inl DecodeError),
      str_of = (\<lambda>v. []), str_lower = lower_ascii, write_ok = (\<lambda>p. True),
      mkdtemp_ok = True, recursion_limit = 1000 \<rparr>"


text \<open>A world whose YAML parser accepts the one block \<open>name: foo\<close>.\<close>

definition yaml_world :: world where
  "yaml_world = offline \<lparr> yaml_safe_load :=
      (\<lambda>s. if s = ''name: foo'' then Inr (PDict [(PStr ''name'', PStr ''foo'')]) else Inl YAMLError) \<rparr>"






definition no_dirs :: fs where
  "no_dirs = \<lparr> created = 0, live = [], files = [] \<rparr>"

text \<open>A server on which every directory is empty.\<close>

definition empty_dir_world :: world where
  "empty_dir_world = offline \<lparr> http_get := (\<lambda>url ref.
      Response \<lparr> status_code = 200, json_body = Some (PList []), content = [] \<rparr>) \<rparr>"

text \<open>
  A server with one skill directory: \<open>SKILL.md\<close>, a directory \<open>scripts\<close> holding
  \<open>run.sh\<close>, and a submodule entry, which the contents API lists as a file without
  download URL.
\<close>

definition skill_tree :: "remote_entry list" where
  "skill_tree =
     [File ''SKILL.md'' ''web/react/SKILL.md'' (Some ''https://raw/SKILL.md''),
      Directory ''scripts'' ''web/react/scripts'' ''https://api/scripts''
        [File ''run.sh'' ''web/react/scripts/run.sh'' (Some ''https://raw/run.sh'')],
      File ''vendor'' ''web/react/vendor'' None]"

definition skill_world :: world where
  "skill_world = offline \<lparr> http_get := (\<lambda>url ref.
      if url = contents_url ''acme'' ''skills'' ''web/react'' \<and> ref = Some ''main'' then
        Response \<lparr> status_code = 200, json_body = Some (PList (map entry_json skill_tree)),
                   content = [] \<rparr>
      else if url = ''https://api/scripts'' \<and> ref = Some ''main'' then
        Response \<lparr> status_code = 200,
                   json_body = Some (PList [entry_json
                     (File ''run.sh'' ''web/react/scripts/run.sh'' (Some ''https://raw/run.sh''))]),
                   content = [] \<rparr>
      else Raises) \<rparr>"

text \<open>The same skill directory when the listing of \<open>scripts\<close> answers 500.\<close>

definition broken_tree :: "remote_entry list" where
  "broken_tree =
     [File ''SKILL.md'' ''web/react/SKILL.md'' (Some ''https://raw/SKILL.md''),
      Unlistable ''scripts'' ''web/react/scripts'' ''https://api/scripts'']"

definition broken_world :: world where
  "broken_world = offline \<lparr> http_get := (\<lambda>url ref.
      if url = contents_url ''acme'' ''skills'' ''web/react'' \<and> ref = Some ''main'' then
        Response \<lparr> status_code = 200, json_body = Some (PList (map entry_json broken_tree)),
                   content = [] \<rparr>
      else if url = ''https://api/scripts'' then
        Response \<lparr> status_code = 500, json_body = None, content = [] \<rparr>
      else Raises) \<rparr>"

text \<open>
  A repository \<open>acme/skills\<close> with two categories: the listing of \<open>web\<close> answers 500, and
  \<open>tools\<close> holds the skills \<open>react-lint\<close> and \<open>fmt\<close>, in this order, each with a
  \<open>SKILL.md\<close> whose content cannot be fetched (404), so that each is named after its
  directory.
\<close>

definition catalog_root :: "pyval list" where
  "catalog_root =
     [entry_json (Directory ''web'' ''web'' ''https://api/web'' []),
      entry_json (Directory ''tools'' ''tools'' ''https://api/tools'' [])]"

definition catalog_world :: world where
  "catalog_world = offline \<lparr> http_get := (\<lambda>url ref.
      if url = contents_url ''acme'' ''skills'' [] then
        Response \<lparr> status_code = 200, json_body = Some (PList catalog_root), content = [] \<rparr>
      else if url = contents_url ''acme'' ''skills'' ''tools'' then
        Response \<lparr> status_code = 200,
          json_body = Some (PList
            [entry_json (Directory ''react-lint'' ''tools/react-lint'' ''https://api/rl'' []),
             entry_json (Directory ''fmt'' ''tools/fmt'' ''https://api/fmt'' [])]),
          content = [] \<rparr>
      else if url = contents_url ''acme'' ''skills'' ''tools/react-lint''
              \<or> url = contents_url ''acme'' ''skills'' ''tools/fmt'' then
        Response \<lparr> status_code = 200,
          json_body = Some (PList [entry_json (File ''SKILL.md'' ''SKILL.md'' (Some ''https://raw''))]),
          content = [] \<rparr>
      else if url = contents_url ''acme'' ''skills'' ''web'' then
        Response \<lparr> status_code = 500, json_body = None, content = [] \<rparr>
      else Response \<lparr> status_code = 404, json_body = None, content = [] \<rparr>) \<rparr>"

definition skill_listing :: "string \<Rightarrow> string \<Rightarrow> listing" where
  "skill_listing category_name skill =
     \<lparr> sk_name = PStr skill, sk_description = PStr no_description, sk_version = PStr ''N/A'',
       sk_author = PStr ''N/A'', sk_category = PStr category_name,
       sk_path = ''acme/skills/'' @ category_name @ ''/'' @ skill \<rparr>"

text \<open>A server that answers every request with status 200 and a GitHub error object.\<close>

definition not_found :: "(pyval \<times> pyval) list" where
  "not_found = [(PStr ''message'', PStr ''Not Found''),
                (PStr ''documentation_url'', PStr ''https://docs.github.com/rest'')]"

definition not_found_world :: world where
  "not_found_world = offline \<lparr> http_get := (\<lambda>url ref.
      Response \<lparr> status_code = 200, json_body = Some (PDict not_found), content = [] \<rparr>) \<rparr>"

text \<open>
  A repository \<open>acme/skills\<close> with the categories \<open>data\<close>, holding the skill directory
  \<open>stats\<close>, and \<open>web\<close>, holding \<open>x-react\<close>. The contents API answers the manifest of
  \<open>stats\<close> with the given base64 text; the manifest of \<open>x-react\<close> cannot be fetched
  (404).
\<close>

definition manifest_server :: "string \<Rightarrow> string \<Rightarrow> string option \<Rightarrow> http_result" where
  "manifest_server encoded url ref =
     (if url = contents_url ''acme'' ''skills'' [] then
        Response \<lparr> status_code = 200,
          json_body = Some (PList
            [entry_json (Directory ''data'' ''data'' ''https://api/data'' []),
             entry_json (Directory ''web'' ''web'' ''https://api/web'' [])]),
          content = [] \<rparr>
      else if url = contents_url ''acme'' ''skills'' ''data'' then
        Response \<lparr> status_code = 200,
          json_body = Some (PList
            [entry_json (Directory ''stats'' ''data/stats'' ''https://api/stats'' [])]),
          content = [] \<rparr>
      else if url = contents_url ''acme'' ''skills'' ''web'' then
        Response \<lparr> status_code = 200,
          json_body = Some (PList
            [entry_json (Directory ''x-react'' ''web/x-react'' ''https://api/x-react'' [])]),
          content = [] \<rparr>
      else if url = contents_url ''acme'' ''skills'' ''data/stats''
              \<or> url = contents_url ''acme'' ''skills'' ''web/x-react'' then
        Response \<lparr> status_code = 200,
          json_body = Some (PList [entry_json (File ''SKILL.md'' ''SKILL.md'' (Some ''https://raw''))]),
          content = [] \<rparr>
      else if url = contents_url ''acme'' ''skills'' ''data/stats/SKILL.md'' then
        Response \<lparr> status_code = 200,
          json_body = Some (PDict [(PStr ''encoding'', PStr ''base64''),
                                   (PStr ''content'', PStr encoded)]),
          content = [] \<rparr>
      else Response \<lparr> status_code = 404, json_body = None, content = [] \<rparr>)"

text \<open>
  The manifest of \<open>stats\<close> is the text \<open>--- foo ---\<close>, whose block \<open>yaml.safe_load\<close>
  reads as the \<open>str\<close> \<open>foo\<close>.
\<close>

definition scalar_world :: world where
  "scalar_world = offline \<lparr>
      http_get := manifest_server ''LS0tIGZvbyAtLS0='',
      b64decode_utf8 := (\<lambda>v. if v = PStr ''LS0tIGZvbyAtLS0='' then Inr ''--- foo ---''
                               else Inl DecodeError),
      yaml_safe_load := (\<lambda>s. if s = '' foo '' then Inr (PStr ''foo'') else Inl YAMLError) \<rparr>"

text \<open>
  The manifest of \<open>stats\<close> is the three lines \<open>---\<close>, \<open>name: 2048\<close>, \<open>---\<close>, whose block
  \<open>yaml.safe_load\<close> reads as the mapping of \<open>name\<close> to the \<open>int\<close> 2048.
\<close>

definition typed_manifest :: string where
  "typed_manifest = ''---'' @ [CHR 0x0A] @ ''name: 2048'' @ [CHR 0x0A] @ ''---'' @ [CHR 0x0A]"

definition typed_world :: world where
  "typed_world = offline \<lparr>
      http_get := manifest_server ''LS0tCm5hbWU6IDIwNDgKLS0tCg=='',
      b64decode_utf8 := (\<lambda>v. if v = PStr ''LS0tCm5hbWU6IDIwNDgKLS0tCg=='' then Inr typed_manifest
                               else Inl DecodeError),
      yaml_safe_load := (\<lambda>s. if s = [CHR 0x0A] @ ''name: 2048'' @ [CHR 0x0A]
                               then Inr (PDict [(PStr ''name'', PInt 2048)])
                               else Inl YAMLError) \<rparr>"

section \<open>Facts about the string functions\<close>

lemma find_sub_char_None: "find_sub [c] s = None \<longleftrightarrow> c \<notin> set s"
  by (induction s) (auto simp: startswith_def)

lemma find_sub_char_Some:
  "find_sub [c] s = Some i \<Longrightarrow> i < length s \<and> s ! i = c \<and> c \<notin> set (take i s)"
proof (induction s arbitrary: i)
  case Nil
  then show ?case by simp
next
  case (Cons a s)
  show ?case
  proof (cases "a = c")
    case True
    with Cons.prems show ?thesis by (simp add: startswith_def)
  next
    case False
    with Cons.prems obtain j where j: "find_sub [c] s = Some j" "i = Suc j"
      by (auto simp: startswith_def)
    from Cons.IH [OF j(1)] False j(2) show ?thesis by simp
  qed
qed

lemma split_str_not_Nil: "split_str sep s \<noteq> []"
  by (subst split_str.simps) (simp split: option.split)

lemma split_char_no_sep:
  assumes "c \<notin> set s"
  shows "split_str [c] s = [s]"
proof -
  from assms have "find_sub [c] s = None" by (simp add: find_sub_char_None)
  then show ?thesis by (subst split_str.simps) simp
qed

lemma contains_char: "contains [c] s \<longleftrightarrow> c \<in> set s"
  by (simp add: contains_def find_sub_char_None)

lemma count_list_append: "count_list (xs @ ys) c = count_list xs c + count_list ys c"
  by (induction xs) auto

lemma count_list_zero: "c \<notin> set xs \<Longrightarrow> count_list xs c = 0"
  by (induction xs) auto

lemma length_split_char: "length (split_str [c] s) = Suc (count_list s c)"
proof (induction "[c]" s rule: split_str.induct)
  case (1 s)
  show ?case
  proof (cases "find_sub [c] s")
    case None
    then have "c \<notin> set s" by (simp add: find_sub_char_None)
    then show ?thesis by (simp add: split_char_no_sep count_list_zero)
  next
    case (Some i)
    from find_sub_char_Some [OF Some]
    have i: "i < length s" "s ! i = c" "c \<notin> set (take i s)" by auto
    have s: "s = take i s @ c # drop (Suc i) s"
      using i(1,2) id_take_nth_drop [of i s] by metis
    have "count_list s c = count_list (take i s @ c # drop (Suc i) s) c"
      using s by simp
    also have "\<dots> = Suc (count_list (drop (Suc i) s) c)"
      using i(3) by (simp add: count_list_append count_list_zero)
    finally have cnt: "count_list s c = Suc (count_list (drop (Suc i) s) c)" .
    have "split_str [c] s = take i s # split_str [c] (drop (Suc i) s)"
      using Some by (subst split_str.simps) simp
    moreover have "length (split_str [c] (drop (Suc i) s)) = Suc (count_list (drop (Suc i) s) c)"
      using "1" [OF _ Some] by simp
    ultimately show ?thesis using cnt by simp
  qed
qed

lemma split_char_elems: "x \<in> set (split_str [c] s) \<Longrightarrow> c \<notin> set x"
proof (induction "[c]" s arbitrary: x rule: split_str.induct)
  case (1 s)
  show ?case
  proof (cases "find_sub [c] s")
    case None
    then have "c \<notin> set s" by (simp add: find_sub_char_None)
    with "1.prems" show ?thesis by (simp add: split_char_no_sep)
  next
    case (Some i)
    have eq: "split_str [c] s = take i s # split_str [c] (drop (Suc i) s)"
      using Some by (subst split_str.simps) simp
    from "1.prems" eq have "x = take i s \<or> x \<in> set (split_str [c] (drop (Suc i) s))"
      by simp
    then show ?thesis
    proof
      assume "x = take i s"
      then show ?thesis using find_sub_char_Some [OF Some] by simp
    next
      assume "x \<in> set (split_str [c] (drop (Suc i) s))"
      then show ?thesis using "1.hyps" [OF _ Some] by simp
    qed
  qed
qed

lemma find_sub_char_append:
  "c \<notin> set x \<Longrightarrow> find_sub [c] (x @ c # rest) = Some (length x)"
  by (induction x) (auto simp: startswith_def)

lemma split_join_char:
  "xs \<noteq> [] \<Longrightarrow> (\<And>x. x \<in> set xs \<Longrightarrow> c \<notin> set x) \<Longrightarrow> split_str [c] (join [c] xs) = xs"
proof (induction xs rule: induct_list012)
  case 1
  then show ?case by simp
next
  case (2 x)
  then show ?case by (simp add: split_char_no_sep)
next
  case (3 x y ys)
  have x: "c \<notin> set x" using "3.prems"(2) by simp
  have "split_str [c] (join [c] (x # y # ys)) = x # split_str [c] (join [c] (y # ys))"
    using find_sub_char_append [OF x, of "join [c] (y # ys)"]
    by (subst split_str.simps) simp
  moreover have "split_str [c] (join [c] (y # ys)) = y # ys"
    using "3.prems"(2) by (intro "3.IH"(2)) auto
  ultimately show ?case by simp
qed

lemma unpack2_pair: "unpack2 [a, b] = Inr (a, b)"
  by (simp add: unpack2_def)

lemma unpack2_length: "length xs \<noteq> 2 \<Longrightarrow> unpack2 xs = Inl ValueError"
  by (auto simp: unpack2_def split: list.splits)



section \<open>Resolution\<close>

lemma contains_slash_if_long:
  assumes "2 \<le> length (split_str ''/'' spec)"
  shows "contains ''/'' spec"
proof -
  from assms have "1 \<le> count_list spec (CHR ''/'')" by (simp add: length_split_char)
  then have "CHR ''/'' \<in> set spec" using count_list_zero [of "CHR ''/''" spec] by fastforce
  then show ?thesis by (simp add: contains_char)
qed


text \<open>
  Claim C3. A slash-delimited spec is the second of the forms that resolution tries in
  order: a spec that starts with \<open>https://github.com/\<close> is a browser URL, the first
  form. For every slash-delimited spec with three or more \<open>/\<close>-separated segments,
  resolution yields the first segment as owner, the second as repository and the remaining
  segments joined with \<open>/\<close> as path, with the ref unchanged, whatever the repository
  override is.
\<close>

theorem resolve_three_segments:
  assumes "\<not> startswith github_prefix spec" and "3 \<le> length (split_str ''/'' spec)"
  shows "resolve w spec ref repo_override =
           Inr (split_str ''/'' spec ! 0, split_str ''/'' spec ! 1,
                join ''/'' (drop 2 (split_str ''/'' spec)), ref)"
proof -
  from assms(2) have "contains ''/'' spec" by (intro contains_slash_if_long) simp
  with assms show ?thesis by (simp add: resolve_def Let_def)
qed

text \<open>The theorem at \<open>acme/skills/web/react\<close> with an override that is ignored.\<close>

theorem resolve_three_segments_witness:
  "\<not> startswith github_prefix ''acme/skills/web/react''
   \<and> 3 \<le> length (split_str ''/'' ''acme/skills/web/react'')
   \<and> resolve offline ''acme/skills/web/react'' ''main'' (Some ''other/repo'')
       = Inr (''acme'', ''skills'', ''web/react'', ''main'')"
proof -
  have s: "split_str ''/'' ''acme/skills/web/react'' = [''acme'', ''skills'', ''web'', ''react'']"
    by code_simp
  have n: "\<not> startswith github_prefix ''acme/skills/web/react''"
    by (simp add: startswith_def github_prefix_def)
  have l: "3 \<le> length (split_str ''/'' ''acme/skills/web/react'')" by (simp add: s)
  from resolve_three_segments [OF n l, of offline "''main''" "Some ''other/repo''"] n l
  show ?thesis by (simp add: s)
qed



text \<open>
  Claim C5, as amended. For a spec that starts with \<open>https://github.com/\<close> and holds
  \<open>/tree/\<close> at most once: with \<open>/tree/\<close>, the ref is the segment right after it and
  the path the remaining segments, and resolution succeeds exactly when the text before
  \<open>/tree/\<close> is \<open>owner/repo\<close>; without \<open>/tree/\<close>, the last segment is the skill
  name and the remainder owner and repository, and resolution succeeds exactly when the
  URL's path has three segments. Otherwise it raises \<open>ValueError\<close>.
\<close>

theorem resolve_github_url:
  assumes "startswith github_prefix spec"
    and "split_str ''/tree/'' (replace_str github_prefix [] spec) = repo_path # others"
    and "length others \<le> 1"
  shows "resolve w spec ref repo_override =
     (case others of
        [] \<Rightarrow>
          (case split_str ''/'' repo_path of
             [owner, repo, name] \<Rightarrow> Inr (owner, repo, name, ref)
           | _ \<Rightarrow> Inl ValueError)
      | rest # _ \<Rightarrow>
          (case split_str ''/'' repo_path of
             [owner, repo] \<Rightarrow>
               Inr (owner, repo, join ''/'' (tl (split_str ''/'' rest)), hd (split_str ''/'' rest))
           | _ \<Rightarrow> Inl ValueError))"
proof (cases others)
  case Nil
  let ?segs = "split_str ''/'' repo_path"
  have ne: "?segs \<noteq> []" by (rule split_str_not_Nil)
  have free: "\<And>x. x \<in> set (butlast ?segs) \<Longrightarrow> CHR ''/'' \<notin> set x"
    using split_char_elems [of _ "CHR ''/''" repo_path] by (auto dest: in_set_butlastD)
  have roundtrip: "split_str ''/'' (join ''/'' (butlast ?segs)) =
      (if butlast ?segs = [] then [[]] else butlast ?segs)"
  proof (cases "butlast ?segs = []")
    case True
    then show ?thesis by (simp add: split_char_no_sep)
  next
    case False
    then show ?thesis using split_join_char [OF False free] by simp
  qed
  have r: "resolve w spec ref repo_override =
      bind (unpack2 (if butlast ?segs = [] then [[]] else butlast ?segs))
        (\<lambda>(owner, repo). Inr (owner, repo, last ?segs, ref))"
    using assms(1,2) Nil ne by (simp add: resolve_def Let_def bind_def first_def final_def roundtrip)
  show ?thesis
  proof (cases "length ?segs = 3")
    case True
    then obtain a b c where s: "?segs = [a, b, c]"
      by (auto simp: length_Suc_conv numeral_3_eq_3)
    show ?thesis unfolding r using Nil s by (simp add: bind_def unpack2_def)
  next
    case False
    then have "length (if butlast ?segs = [] then [[]] else butlast ?segs) \<noteq> 2"
      by (auto simp: numeral_3_eq_3)
    then have u: "unpack2 (if butlast ?segs = [] then [[]] else butlast ?segs) = Inl ValueError"
      by (rule unpack2_length)
    have "(case ?segs of [owner, repo, name] \<Rightarrow> Inr (owner, repo, name, ref)
           | _ \<Rightarrow> Inl ValueError) = (Inl ValueError :: exn + (string \<times> string \<times> string \<times> string))"
      using False by (auto split: list.splits)
    then show ?thesis unfolding r u using Nil by (simp add: bind_def)
  qed
next
  case (Cons rest others')
  have ne: "split_str ''/'' rest \<noteq> []" by (rule split_str_not_Nil)
  then obtain rf segs where rs: "split_str ''/'' rest = rf # segs" by (cases "split_str ''/'' rest") auto
  show ?thesis
    using assms(1,2) Cons rs
    by (auto simp: resolve_def Let_def bind_def first_def unpack2_def split: list.splits)
qed

text \<open>
  Claim C5 as stated fails: a browser URL without \<open>/tree/\<close> whose path has four
  segments makes resolution raise \<open>ValueError\<close>.
\<close>

theorem github_url_counterexample:
  "startswith github_prefix ''https://github.com/o/r/c/s''
   \<and> \<not> contains ''/tree/'' ''https://github.com/o/r/c/s''
   \<and> resolve offline ''https://github.com/o/r/c/s'' ''main'' None = Inl ValueError"
  by code_simp

text \<open>The theorem at a URL with \<open>/tree/dev/\<close>.\<close>

theorem resolve_github_url_witness:
  "startswith github_prefix ''https://github.com/o/r/tree/dev/web/react''
   \<and> split_str ''/tree/'' (replace_str github_prefix [] ''https://github.com/o/r/tree/dev/web/react'')
       = [''o/r'', ''dev/web/react'']
   \<and> resolve offline ''https://github.com/o/r/tree/dev/web/react'' ''main'' None
       = Inr (''o'', ''r'', ''web/react'', ''dev'')"
proof -
  have a: "startswith github_prefix ''https://github.com/o/r/tree/dev/web/react''" by code_simp
  have b: "split_str ''/tree/'' (replace_str github_prefix [] ''https://github.com/o/r/tree/dev/web/react'')
       = [''o/r'', ''dev/web/react'']" by code_simp
  have c: "split_str ''/'' ''o/r'' = [''o'', ''r'']" by code_simp
  have d: "split_str ''/'' ''dev/web/react'' = [''dev'', ''web'', ''react'']" by code_simp
  from resolve_github_url [OF a b, of offline "''main''" None] a b show ?thesis
    by (simp add: c d)
qed

section \<open>Front matter metadata\<close>

text \<open>
  What holds of the metadata extraction for every text: it never raises, it always returns
  a value. A text that does not start with the delimiter \<open>---\<close>, a text with fewer than
  two delimiters, and a text whose block \<open>yaml.safe_load\<close> rejects all give the empty
  mapping. The result is a function of the text (and of what \<open>yaml.safe_load\<close> does),
  so equal texts give equal results. A block that \<open>yaml.safe_load\<close> accepts is returned
  as it was read, whatever its type, unless it is falsy.
\<close>

theorem metadata_never_raises:
  "(\<exists>v. parse_skill_metadata_from_content w doc = Inr v)
   \<and> (\<forall>v. startswith ''---'' doc \<and> 3 \<le> length (split_max ''---'' 2 doc)
           \<and> yaml_safe_load w (split_max ''---'' 2 doc ! 1) = Inr v \<longrightarrow>
        parse_skill_metadata_from_content w doc = Inr (if truthy v then v else PDict []))
   \<and> (\<not> startswith ''---'' doc \<longrightarrow> parse_skill_metadata_from_content w doc = Inr (PDict []))
   \<and> (length (split_max ''---'' 2 doc) < 3 \<longrightarrow>
        parse_skill_metadata_from_content w doc = Inr (PDict []))
   \<and> (\<forall>e. yaml_safe_load w (split_max ''---'' 2 doc ! 1) = Inl e \<longrightarrow>
        parse_skill_metadata_from_content w doc = Inr (PDict []))
   \<and> (doc' = doc \<longrightarrow>
        parse_skill_metadata_from_content w doc' = parse_skill_metadata_from_content w doc)"
  by (auto simp: parse_skill_metadata_from_content_def catch_def bind_def Let_def
           split: sum.splits)

text \<open>
  The theorem at a text without delimiter, one without closing delimiter and one whose
  block does not parse; a well-formed block is returned as parsed.
\<close>

theorem metadata_never_raises_witness:
  "\<not> startswith ''---'' ''# react'' 
   \<and> parse_skill_metadata_from_content yaml_world ''# react'' = Inr (PDict [])
   \<and> length (split_max ''---'' 2 ''---name: foo'') < 3
   \<and> parse_skill_metadata_from_content yaml_world ''---name: foo'' = Inr (PDict [])
   \<and> yaml_safe_load yaml_world (split_max ''---'' 2 ''---: x: y---body'' ! 1) = Inl YAMLError
   \<and> parse_skill_metadata_from_content yaml_world ''---: x: y---body'' = Inr (PDict [])
   \<and> parse_skill_metadata_from_content yaml_world ''---name: foo---body''
        = Inr (PDict [(PStr ''name'', PStr ''foo'')])"
proof -
  have a: "\<not> startswith ''---'' ''# react''" by code_simp
  have b: "length (split_max ''---'' 2 ''---name: foo'') < 3" by code_simp
  have c: "yaml_safe_load yaml_world (split_max ''---'' 2 ''---: x: y---body'' ! 1) = Inl YAMLError"
    by code_simp
  have d: "parse_skill_metadata_from_content yaml_world ''---name: foo---body''
        = Inr (PDict [(PStr ''name'', PStr ''foo'')])" by code_simp
  from metadata_never_raises [of yaml_world "''# react''"] a
  have 1: "parse_skill_metadata_from_content yaml_world ''# react'' = Inr (PDict [])" by blast
  from metadata_never_raises [of yaml_world "''---name: foo''"] b
  have 2: "parse_skill_metadata_from_content yaml_world ''---name: foo'' = Inr (PDict [])" by blast
  from metadata_never_raises [of yaml_world "''---: x: y---body''"] c
  have 3: "parse_skill_metadata_from_content yaml_world ''---: x: y---body'' = Inr (PDict [])" by blast
  from a b c d 1 2 3 show ?thesis by blast
qed

text \<open>
  Claim C7 fails on the code for a front-matter block that is not a mapping. The text
  \<open>--- foo ---\<close> starts with the delimiter and holds it twice; its block is the
  scalar \<open>foo\<close>, which \<open>yaml.safe_load\<close> returns as a \<open>str\<close>, and
  \<open>yaml.safe_load(yaml_content) or {}\<close> replaces only a falsy value: the function
  returns the \<open>str\<close> \<open>foo\<close>, not the empty mapping, against its annotation
  \<open>-> dict\<close>. Its caller \<open>_list_github_skills\<close> then calls \<open>metadata.get\<close> outside
  the \<open>try\<close> that guards the parsing: with such a manifest in one skill, the
  \<open>AttributeError\<close> empties the whole catalog.
\<close>

theorem metadata_scalar_block:
  "startswith ''---'' ''--- foo ---''
   \<and> split_max ''---'' 2 ''--- foo ---'' = [[], '' foo '', []]
   \<and> yaml_safe_load scalar_world '' foo '' = Inr (PStr ''foo'')
   \<and> parse_skill_metadata_from_content scalar_world ''--- foo ---'' = Inr (PStr ''foo'')
   \<and> list_github_skills scalar_world ''acme/skills'' ''main''
       = ([ErrListSkills AttributeError, Traceback], [])"
  by code_simp

section \<open>The concurrent fetcher\<close>














section \<open>Cleaning up\<close>

lemma is_under_root: "is_under (TmpDir n) q \<longleftrightarrow> root_of q = Some n"
  by (induction q) auto

lemma rmtree_fresh:
  assumes "fs_ok st"
  shows "rmtree (st\<lparr>created := Suc (created st), live := created st # live st\<rparr>)
           (TmpDir (created st)) = st\<lparr>created := Suc (created st)\<rparr>"
proof -
  from assms have a: "created st \<notin> set (live st)"
    by (auto simp: fs_ok_def list_all_iff)
  from assms have b: "\<And>q c. (q, c) \<in> set (files st) \<Longrightarrow> root_of q \<noteq> Some (created st)"
    by (fastforce simp: fs_ok_def list_all_iff)
  have "filter (\<lambda>(q, c). \<not> is_under (TmpDir (created st)) q) (files st) = files st"
    using b by (auto simp: filter_id_conv is_under_root)
  with a show ?thesis by (simp add: rmtree_def)
qed

lemma download_abort:
  assumes "fs_ok st"
    and "download_skill_from_github w picks st owner repo skill_path ref = Inr (st', out, None)"
  shows "st' = st\<lparr>created := Suc (created st)\<rparr>"
  using assms rmtree_fresh [OF assms(1)]
  by (auto simp: download_skill_from_github_def bind_def mkdtemp_def Let_def
           split: if_splits sum.splits prod.splits)

lemma download_raises:
  assumes "download_skill_from_github w picks st owner repo skill_path ref = Inl e"
  shows "\<not> mkdtemp_ok w"
  using assms
  by (auto simp: download_skill_from_github_def bind_def mkdtemp_def Let_def
           split: if_splits sum.splits prod.splits)

text \<open>
  Claim C8. When the download pipeline returns no directory (resolution raised, the
  listing failed, no file was found, or \<open>mkdtemp\<close> failed), either no temporary directory
  was made, or the one made has been removed: the directories and files that exist are
  those that existed before the call, and the path \<open>mkdtemp\<close> gave does not exist.
\<close>

theorem abort_removes_temp_dir:
  assumes "fs_ok st"
    and "resolve_and_download_skill w picks st skill_spec ref repo_override = (st', out, None)"
  shows "(st' = st \<or> st' = st\<lparr>created := Suc (created st)\<rparr>)
     \<and> live st' = live st \<and> files st' = files st
     \<and> \<not> path_exists st' (TmpDir (created st))"
proof -
  have "st' = st \<or> st' = st\<lparr>created := Suc (created st)\<rparr>"
  proof (cases "resolve w skill_spec ref repo_override")
    case (Inl e)
    with assms(2) show ?thesis by (simp add: resolve_and_download_skill_def)
  next
    case (Inr t)
    obtain owner repo skill_path ref' where t: "t = (owner, repo, skill_path, ref')"
      by (cases t) auto
    show ?thesis
    proof (cases "download_skill_from_github w picks st owner repo skill_path ref'")
      case (Inl e)
      with assms(2) Inr t show ?thesis by (simp add: resolve_and_download_skill_def)
    next
      case r: (Inr res)
      obtain st2 out2 result where res: "res = (st2, out2, result)" by (cases res) auto
      with assms(2) Inr t r have "st2 = st'" "result = None"
        by (simp_all add: resolve_and_download_skill_def)
      with r res download_abort [OF assms(1), of w picks owner repo skill_path ref' st' out2]
      show ?thesis by simp
    qed
  qed
  moreover from assms(1) have "created st \<notin> set (live st)"
    by (auto simp: fs_ok_def list_all_iff)
  ultimately show ?thesis by (auto simp: path_exists_def)
qed

text \<open>
  The theorem on the three aborting paths: no server (the listing fails), a server with
  an empty directory (no file found), and a spec that does not resolve.
\<close>



theorem abort_removes_temp_dir_witness:
  "fs_ok no_dirs
   \<and> resolve_and_download_skill offline [] no_dirs ''acme/skills/web/react'' ''main'' None
       = (no_dirs\<lparr>created := 1\<rparr>,
          [EchoResolving ''acme'' ''skills'' ''web/react'' ''main'', EchoAnalysing,
           ErrGithubDownload RequestException], None)
   \<and> resolve_and_download_skill empty_dir_world [] no_dirs ''acme/skills/web/react'' ''main'' None
       = (no_dirs\<lparr>created := 1\<rparr>,
          [EchoResolving ''acme'' ''skills'' ''web/react'' ''main'', EchoAnalysing, ErrNoFiles],
          None)
   \<and> resolve_and_download_skill offline [] no_dirs ''https://github.com/o'' ''main'' None
       = (no_dirs, [ErrDownloadSkill ValueError], None)
   \<and> \<not> path_exists (no_dirs\<lparr>created := 1\<rparr>) (TmpDir 0)"
proof -
  have ok: "fs_ok no_dirs" by (simp add: fs_ok_def no_dirs_def)
  have a: "resolve_and_download_skill offline [] no_dirs ''acme/skills/web/react'' ''main'' None
       = (no_dirs\<lparr>created := 1\<rparr>,
          [EchoResolving ''acme'' ''skills'' ''web/react'' ''main'', EchoAnalysing,
           ErrGithubDownload RequestException], None)" by code_simp
  have b: "resolve_and_download_skill empty_dir_world [] no_dirs ''acme/skills/web/react'' ''main'' None
       = (no_dirs\<lparr>created := 1\<rparr>,
          [EchoResolving ''acme'' ''skills'' ''web/react'' ''main'', EchoAnalysing, ErrNoFiles],
          None)" by code_simp
  have c: "resolve_and_download_skill offline [] no_dirs ''https://github.com/o'' ''main'' None
       = (no_dirs, [ErrDownloadSkill ValueError], None)" by code_simp
  have z: "created no_dirs = 0" by (simp add: no_dirs_def)
  from abort_removes_temp_dir [OF ok a] z
  have "\<not> path_exists (no_dirs\<lparr>created := 1\<rparr>) (TmpDir 0)" by simp
  with ok a b c show ?thesis by simp
qed

section \<open>Listing a remote tree\<close>

lemma collect_files_ok:
  assumes "listing_ok w ref url items"
  shows "collect_files w ref (Suc m) (PStr url) local_dir acc
           = collect_items w ref m items local_dir acc"
  using assms
  by (auto simp: listing_ok_def requests_get_def raise_for_status_def response_json_def
           split: http_result.splits)

lemma collect_files_fails:
  assumes "listing_fails w ref url"
  shows "collect_files w ref (Suc m) (PStr url) local_dir acc = (acc, Some RequestException)"
  using assms
  by (auto simp: listing_fails_def requests_get_def raise_for_status_def
           split: http_result.splits)

lemma collect_item_file:
  "collect_item w ref n (entry_json (File name path url)) local_dir acc
     = (acc @ flatten_entry local_dir (File name path url), None)"
  by (cases url)
     (simp_all add: eq_str_def dict_get_def dict_get_default_def dict_index_def bind_def
        path_join_def Let_def)

lemma collect_item_dir:
  "collect_item w ref n (entry_json (Directory name path url children)) local_dir acc
     = collect_files w ref n (PStr url) (join_path local_dir name) acc"
  by (simp add: eq_str_def dict_get_def dict_index_def bind_def path_join_def)

lemma collect_item_unlistable:
  "collect_item w ref n (entry_json (Unlistable name path url)) local_dir acc
     = collect_files w ref n (PStr url) (join_path local_dir name) acc"
  by (simp add: eq_str_def dict_get_def dict_index_def bind_def path_join_def)

declare collect_item.simps [simp del]

lemma collect_tree:
  "serves_below w ref es \<Longrightarrow> height es \<le> n \<Longrightarrow>
     (\<not> broken es \<longrightarrow>
        collect_items w ref n (map entry_json es) local_dir acc
          = (acc @ flatten local_dir es, None))
     \<and> (broken es \<longrightarrow>
        (\<exists>part. collect_items w ref n (map entry_json es) local_dir acc
                  = (part, Some RequestException)))"
  "serves_entry w ref e \<Longrightarrow> height_entry e \<le> n \<Longrightarrow>
     (\<not> broken_entry e \<longrightarrow>
        collect_item w ref n (entry_json e) local_dir acc
          = (acc @ flatten_entry local_dir e, None))
     \<and> (broken_entry e \<longrightarrow>
        (\<exists>part. collect_item w ref n (entry_json e) local_dir acc
                  = (part, Some RequestException)))"
proof (induction es and e arbitrary: n local_dir acc and n local_dir acc
       rule: height_height_entry.induct)
  case 1
  then show ?case by simp
next
  case (2 e es)
  from "2.prems" have se: "serves_entry w ref e" and ss: "serves_below w ref es"
    and he: "height_entry e \<le> n" and hs: "height es \<le> n" by simp_all
  note e = "2.IH"(1) [OF se he, of local_dir acc]
  show ?case
  proof (cases "broken_entry e")
    case True
    with e obtain part where
      "collect_item w ref n (entry_json e) local_dir acc = (part, Some RequestException)"
      by blast
    with True show ?thesis by simp
  next
    case False
    with e have c: "collect_item w ref n (entry_json e) local_dir acc
        = (acc @ flatten_entry local_dir e, None)" by blast
    from "2.IH"(2) [OF ss hs, of local_dir "acc @ flatten_entry local_dir e"] c False
    show ?thesis by simp
  qed
next
  case (3 name path url)
  show ?case by (simp add: collect_item_file del: entry_json.simps flatten_entry.simps)
next
  case (4 name path url children)
  from "4.prems" obtain m where n: "n = Suc m" and h: "height children \<le> m"
    by (cases n) auto
  from "4.prems" have ok: "listing_ok w ref url (map entry_json children)"
    and below: "serves_below w ref children" by simp_all
  from "4.IH" [OF below h, of "join_path local_dir name" acc] collect_files_ok [OF ok]
  show ?case by (simp add: collect_item_dir n del: entry_json.simps)
next
  case (5 name path url)
  from "5.prems" obtain m where n: "n = Suc m" by (cases n) auto
  from "5.prems" have "listing_fails w ref url" by simp
  from collect_files_fails [OF this] show ?case by (simp add: collect_item_unlistable n del: entry_json.simps)
qed

lemma length_flatten:
  "length (flatten local_dir es) = count_downloadable es"
  "length (flatten_entry local_dir e) = count_downloadable_entry e"
  by (induction es and e arbitrary: local_dir and local_dir rule: height_height_entry.induct)
     (auto split: option.splits)

lemma count_downloadable_le:
  "count_downloadable es \<le> count_files es"
  "count_downloadable_entry e \<le> count_files_entry e"
  by (induction es and e rule: height_height_entry.induct) (auto split: option.splits)

text \<open>
  Claim C2, as amended. For every remote tree that the server answers and whose
  directories nest less deep than Python allows calls to nest: when no listing call fails,
  the listing returns, depth first, exactly one job for each file that has a non-empty
  download URL (so their number is the number of such files, at most the number of
  nodes that are not directories, and no job comes from a directory); when a listing call
  fails at any level, the listing as a whole fails with that error and returns no list. A
  failure of the first listing call does the same.
\<close>

theorem list_tree_exhaustive:
  assumes "serves w ref url es" and "height es < recursion_limit w"
  shows "list_tree w ref url local_dir =
           (if broken es then Inl RequestException else Inr (flatten local_dir es))
     \<and> length (flatten local_dir es) = count_downloadable es
     \<and> count_downloadable es \<le> count_files es
     \<and> (\<forall>url'. listing_fails w ref url' \<longrightarrow>
            list_tree w ref url' local_dir = Inl RequestException)"
proof -
  from assms(2) obtain m where m: "recursion_limit w = Suc m" and h: "height es \<le> m"
    by (cases "recursion_limit w") auto
  from assms(1) have ok: "listing_ok w ref url (map entry_json es)"
    and below: "serves_below w ref es" by simp_all
  have "list_tree w ref url local_dir =
           (if broken es then Inl RequestException else Inr (flatten local_dir es))"
    using collect_tree(1) [OF below h, of local_dir "[]"] collect_files_ok [OF ok, of m local_dir "[]"]
    by (auto simp: list_tree_def m)
  moreover have "\<forall>url'. listing_fails w ref url' \<longrightarrow>
            list_tree w ref url' local_dir = Inl RequestException"
    using collect_files_fails [of w ref _ m local_dir "[]"] by (simp add: list_tree_def m)
  ultimately show ?thesis using length_flatten(1) count_downloadable_le(1) by simp
qed

text \<open>
  The theorem on the skill directory of the spec's scenario, with two files to download,
  and on the one whose nested listing fails.
\<close>

theorem list_tree_exhaustive_witness:
  "serves skill_world ''main'' (contents_url ''acme'' ''skills'' ''web/react'') skill_tree
   \<and> height skill_tree < recursion_limit skill_world
   \<and> list_tree skill_world ''main'' (contents_url ''acme'' ''skills'' ''web/react'') (TmpDir 0)
       = Inr [(PStr ''https://raw/SKILL.md'', Join (TmpDir 0) ''SKILL.md'',
               PStr ''web/react/SKILL.md''),
              (PStr ''https://raw/run.sh'', Join (Join (TmpDir 0) ''scripts'') ''run.sh'',
               PStr ''web/react/scripts/run.sh'')]
   \<and> serves broken_world ''main'' (contents_url ''acme'' ''skills'' ''web/react'') broken_tree
   \<and> height broken_tree < recursion_limit broken_world
   \<and> list_tree broken_world ''main'' (contents_url ''acme'' ''skills'' ''web/react'') (TmpDir 0)
       = Inl RequestException"
proof -
  have a: "serves skill_world ''main'' (contents_url ''acme'' ''skills'' ''web/react'') skill_tree"
    by code_simp
  have b: "height skill_tree < recursion_limit skill_world" by code_simp
  have c: "\<not> broken skill_tree" by code_simp
  have d: "flatten (TmpDir 0) skill_tree
       = [(PStr ''https://raw/SKILL.md'', Join (TmpDir 0) ''SKILL.md'',
               PStr ''web/react/SKILL.md''),
              (PStr ''https://raw/run.sh'', Join (Join (TmpDir 0) ''scripts'') ''run.sh'',
               PStr ''web/react/scripts/run.sh'')]" by code_simp
  have a': "serves broken_world ''main'' (contents_url ''acme'' ''skills'' ''web/react'') broken_tree"
    by code_simp
  have b': "height broken_tree < recursion_limit broken_world" by code_simp
  have c': "broken broken_tree" by code_simp
  from list_tree_exhaustive [OF a b, of "TmpDir 0"] c d
  have 1: "list_tree skill_world ''main'' (contents_url ''acme'' ''skills'' ''web/react'') (TmpDir 0)
       = Inr [(PStr ''https://raw/SKILL.md'', Join (TmpDir 0) ''SKILL.md'',
               PStr ''web/react/SKILL.md''),
              (PStr ''https://raw/run.sh'', Join (Join (TmpDir 0) ''scripts'') ''run.sh'',
               PStr ''web/react/scripts/run.sh'')]" by simp
  from list_tree_exhaustive [OF a' b', of "TmpDir 0"] c'
  have 2: "list_tree broken_world ''main'' (contents_url ''acme'' ''skills'' ''web/react'') (TmpDir 0)
       = Inl RequestException" by simp
  from a b a' b' 1 2 show ?thesis by blast
qed

text \<open>
  Claim C2 as stated fails: the skill directory has three nodes that are not directories,
  and the listing returns two files, since the entry without download URL is skipped.
\<close>

theorem list_tree_count_counterexample:
  "serves skill_world ''main'' (contents_url ''acme'' ''skills'' ''web/react'') skill_tree
   \<and> count_files skill_tree = 3
   \<and> (case list_tree skill_world ''main'' (contents_url ''acme'' ''skills'' ''web/react'') (TmpDir 0)
       of Inl e \<Rightarrow> False | Inr jobs \<Rightarrow> length jobs = 2)"
  by code_simp

section \<open>The catalog\<close>

lemma shift_state_nil [simp]: "shift_state ([], []) r = r"
  by (cases r) (simp add: shift_state_def)

lemma shift_state_shift:
  "shift_state st (shift_state st' r) = shift_state (fst st @ fst st', snd st @ snd st') r"
  by (cases r) (simp add: shift_state_def)

lemma skill_except_shift:
  "skill_except category_name item_name st e
     = shift_state st (skill_except category_name item_name ([], []) e)"
  by (simp add: skill_except_def shift_state_def)

lemma category_except_shift:
  "category_except category_name st e
     = shift_state st (category_except category_name ([], []) e)"
  by (simp add: category_except_def shift_state_def)

lemma read_metadata_shift:
  "read_metadata w category_name item_name md_response msgs
     = (msgs @ fst (read_metadata w category_name item_name md_response []),
        snd (read_metadata w category_name item_name md_response []))"
  by (simp add: read_metadata_def split: sum.splits)

lemma list_skill_shift:
  "list_skill w ref repo category_name category_url item st
     = shift_state st (list_skill w ref repo category_name category_url item ([], []))"
proof (cases "dict_index item ''name''")
  case (Inl e)
  then show ?thesis by (simp add: list_skill_def shift_state_def)
next
  case (Inr item_name)
  let ?url = "category_url @ ''/'' @ fmt w item_name"
  show ?thesis
  proof (cases "get_json w ref ?url")
    case (Inl e)
    with Inr show ?thesis
      using skill_except_shift [of category_name item_name st e]
      by (simp add: list_skill_def Let_def)
  next
    case items: (Inr skill_items)
    show ?thesis
    proof (cases "has_skill_md skill_items")
      case False
      with Inr items show ?thesis by (simp add: list_skill_def Let_def shift_state_def)
    next
      case True
      show ?thesis
      proof (cases "requests_get w (PStr (?url @ ''/SKILL.md'')) (Some ref)")
        case (Inl e)
        with Inr items True show ?thesis
          using skill_except_shift [of category_name item_name st e]
          by (simp add: list_skill_def Let_def)
      next
        case md: (Inr md_response)
        obtain m0 metadata where
          r0: "read_metadata w category_name item_name md_response [] = (m0, metadata)"
          by (cases "read_metadata w category_name item_name md_response []") auto
        have r: "\<And>msgs. read_metadata w category_name item_name md_response msgs
            = (msgs @ m0, metadata)"
          using read_metadata_shift [of w category_name item_name md_response] r0 by simp
        show ?thesis
        proof (cases "make_listing w repo category_name metadata item")
          case (Inl e)
          have "list_skill w ref repo category_name category_url item st
              = skill_except category_name item_name (fst st @ m0, snd st) e"
            using Inr items True md r Inl by (simp add: list_skill_def Let_def)
          moreover have "list_skill w ref repo category_name category_url item ([], [])
              = skill_except category_name item_name (m0, []) e"
            using Inr items True md r [of "[]"] Inl by (simp add: list_skill_def Let_def)
          ultimately show ?thesis
            by (simp add: skill_except_def shift_state_def)
        next
          case l: (Inr l)
          have "list_skill w ref repo category_name category_url item st
              = ((fst st @ m0, snd st @ [l]), None)"
            using Inr items True md r l by (simp add: list_skill_def Let_def)
          moreover have "list_skill w ref repo category_name category_url item ([], [])
              = ((m0, [l]), None)"
            using Inr items True md r [of "[]"] l by (simp add: list_skill_def Let_def)
          ultimately show ?thesis by (simp add: shift_state_def)
        qed
      qed
    qed
  qed
qed

lemma list_items_shift:
  "list_items w ref repo category_name category_url items st
     = shift_state st (list_items w ref repo category_name category_url items ([], []))"
proof (induction items arbitrary: st)
  case Nil
  then show ?case by (simp add: shift_state_def)
next
  case (Cons item items)
  show ?case
  proof (cases "\<exists>d. item = PDict d \<and> eq_str (dict_get d ''type'') ''dir''")
    case False
    then have "\<And>s. list_items w ref repo category_name category_url (item # items) s
        = list_items w ref repo category_name category_url items s"
      by (cases item) auto
    then show ?thesis using Cons.IH [of st] by (simp only:)
  next
    case True
    then obtain d where d: "item = PDict d" "eq_str (dict_get d ''type'') ''dir''" by blast
    obtain m s r where e: "list_skill w ref repo category_name category_url d ([], []) = ((m, s), r)"
      by (cases "list_skill w ref repo category_name category_url d ([], [])") auto
    have f: "list_skill w ref repo category_name category_url d st
        = ((fst st @ m, snd st @ s), r)"
      using list_skill_shift [of w ref repo category_name category_url d st] e
      by (simp add: shift_state_def)
    show ?thesis
    proof (cases r)
      case (Some x)
      with d e f show ?thesis by (simp add: shift_state_def)
    next
      case None
      have "list_items w ref repo category_name category_url (item # items) st
          = list_items w ref repo category_name category_url items (fst st @ m, snd st @ s)"
        using d f None by simp
      also have "\<dots> = shift_state (fst st @ m, snd st @ s)
          (list_items w ref repo category_name category_url items ([], []))"
        by (rule Cons.IH)
      also have "\<dots> = shift_state st (shift_state (m, s)
          (list_items w ref repo category_name category_url items ([], [])))"
        by (simp add: shift_state_shift)
      also have "shift_state (m, s) (list_items w ref repo category_name category_url items ([], []))
          = list_items w ref repo category_name category_url items (m, s)"
        by (rule Cons.IH [symmetric])
      also have "list_items w ref repo category_name category_url items (m, s)
          = list_items w ref repo category_name category_url (item # items) ([], [])"
        using d e None by simp
      finally show ?thesis .
    qed
  qed
qed

lemma list_category_shift:
  "list_category w ref repo api_url category st
     = shift_state st (list_category w ref repo api_url category ([], []))"
proof (cases "dict_index category ''name''")
  case (Inl e)
  then show ?thesis by (simp add: list_category_def shift_state_def)
next
  case (Inr category_name)
  let ?url = "api_url @ fmt w category_name"
  show ?thesis
  proof (cases "get_json w ref ?url")
    case (Inl e)
    with Inr show ?thesis
      using category_except_shift [of category_name st e]
      by (simp add: list_category_def Let_def)
  next
    case items: (Inr items)
    show ?thesis
    proof (cases "\<exists>xs. items = PList xs")
      case False
      then have "\<And>s. list_category w ref repo api_url category s = (s, None)"
        using Inr items by (cases items) (simp_all add: list_category_def Let_def)
      then show ?thesis by (simp add: shift_state_def)
    next
      case True
      then obtain xs where xs: "items = PList xs" by blast
      obtain m s r where
        e: "list_items w ref repo category_name ?url xs ([], []) = ((m, s), r)"
        by (cases "list_items w ref repo category_name ?url xs ([], [])") auto
      have f: "list_items w ref repo category_name ?url xs st
              = ((fst st @ m, snd st @ s), r)"
        using list_items_shift [of w ref repo category_name ?url xs st] e
        by (simp add: shift_state_def)
      show ?thesis
      proof (cases r)
        case None
        have "list_category w ref repo api_url category st = ((fst st @ m, snd st @ s), None)"
          using Inr items xs f None by (simp add: list_category_def Let_def)
        moreover have "list_category w ref repo api_url category ([], []) = ((m, s), None)"
          using Inr items xs e None by (simp add: list_category_def Let_def)
        ultimately show ?thesis by (simp add: shift_state_def)
      next
        case (Some x)
        have "list_category w ref repo api_url category st
            = category_except category_name (fst st @ m, snd st @ s) x"
          using Inr items xs f Some by (simp add: list_category_def Let_def)
        moreover have "list_category w ref repo api_url category ([], [])
            = category_except category_name (m, s) x"
          using Inr items xs e Some by (simp add: list_category_def Let_def)
        ultimately show ?thesis by (simp add: category_except_def shift_state_def)
      qed
    qed
  qed
qed

lemma list_categories_shift:
  "list_categories w ref repo api_url cats st
     = shift_state st (list_categories w ref repo api_url cats ([], []))"
proof (induction cats arbitrary: st)
  case Nil
  then show ?case by (simp add: shift_state_def)
next
  case (Cons c cats)
  show ?case
  proof (cases "\<exists>d. c = PDict d \<and> eq_str (dict_get d ''type'') ''dir''")
    case False
    then have "\<And>s. list_categories w ref repo api_url (c # cats) s
        = list_categories w ref repo api_url cats s"
      by (cases c) auto
    then show ?thesis using Cons.IH [of st] by (simp only:)
  next
    case True
    then obtain d where d: "c = PDict d" "eq_str (dict_get d ''type'') ''dir''" by blast
    obtain m s r where e: "list_category w ref repo api_url d ([], []) = ((m, s), r)"
      by (cases "list_category w ref repo api_url d ([], [])") auto
    have f: "list_category w ref repo api_url d st = ((fst st @ m, snd st @ s), r)"
      using list_category_shift [of w ref repo api_url d st] e by (simp add: shift_state_def)
    show ?thesis
    proof (cases r)
      case (Some x)
      with d e f show ?thesis by (simp add: shift_state_def)
    next
      case None
      have "list_categories w ref repo api_url (c # cats) st
          = list_categories w ref repo api_url cats (fst st @ m, snd st @ s)"
        using d f None by simp
      also have "\<dots> = shift_state (fst st @ m, snd st @ s)
          (list_categories w ref repo api_url cats ([], []))"
        by (rule Cons.IH)
      also have "\<dots> = shift_state st (shift_state (m, s)
          (list_categories w ref repo api_url cats ([], [])))"
        by (simp add: shift_state_shift)
      also have "shift_state (m, s) (list_categories w ref repo api_url cats ([], []))
          = list_categories w ref repo api_url cats (m, s)"
        by (rule Cons.IH [symmetric])
      also have "list_categories w ref repo api_url cats (m, s)
          = list_categories w ref repo api_url (c # cats) ([], [])"
        using d e None by simp
      finally show ?thesis .
    qed
  qed
qed

lemma list_categories_append:
  "list_categories w ref repo api_url (xs @ ys) st
     = (case list_categories w ref repo api_url xs st of
          (st', Some e) \<Rightarrow> (st', Some e)
        | (st', None) \<Rightarrow> list_categories w ref repo api_url ys st')"
proof (induction xs arbitrary: st)
  case Nil
  then show ?case by simp
next
  case (Cons c xs)
  show ?case
  proof (cases "\<exists>d. c = PDict d \<and> eq_str (dict_get d ''type'') ''dir''")
    case False
    then have "\<And>zs s. list_categories w ref repo api_url (c # zs) s
        = list_categories w ref repo api_url zs s"
      by (cases c) auto
    then show ?thesis using Cons.IH [of st] by (simp only: append_Cons)
  next
    case True
    then obtain d where d: "c = PDict d" "eq_str (dict_get d ''type'') ''dir''" by blast
    obtain st1 r where e: "list_category w ref repo api_url d st = (st1, r)"
      by (cases "list_category w ref repo api_url d st") auto
    show ?thesis using d e Cons.IH [of st1] by (cases r) simp_all
  qed
qed

lemma get_json_fails:
  assumes "listing_fails w ref url"
  shows "get_json w ref url = Inl RequestException"
  using assms
  by (auto simp: listing_fails_def get_json_def requests_get_def raise_for_status_def bind_def
           split: http_result.splits)

lemma list_category_fails:
  assumes "dict_index d ''name'' = Inr category_name"
    and "listing_fails w ref (api_url @ fmt w category_name)"
  shows "list_category w ref repo api_url d st
           = ((fst st @ [WarnCategory category_name RequestException], snd st), None)"
  using assms(1) get_json_fails [OF assms(2)]
  by (simp add: list_category_def Let_def category_except_def is_request_exception_def)

text \<open>
  Claim C9. When the listing call of one category fails (no response, or a 4xx or 5xx
  status), the failure is caught for that category: a warning naming the category is
  printed, the list of skills is unchanged, and the loop goes on. The catalog returned is
  the one the other categories give: it is the catalog returned when the failing category
  is not among the entries of the root.
\<close>

theorem category_failure_skipped:
  assumes "eq_str (dict_get d ''type'') ''dir''"
    and "dict_index d ''name'' = Inr category_name"
    and "listing_fails w ref (api_url @ fmt w category_name)"
  shows "list_category w ref repo api_url d (msgs, skills)
           = ((msgs @ [WarnCategory category_name RequestException], skills), None)
     \<and> snd (catalog_of w ref repo api_url (cats1 @ PDict d # cats2))
         = snd (catalog_of w ref repo api_url (cats1 @ cats2))
     \<and> (snd (list_categories w ref repo api_url cats1 ([], [])) = None \<longrightarrow>
          WarnCategory category_name RequestException
            \<in> set (fst (catalog_of w ref repo api_url (cats1 @ PDict d # cats2))))"
proof -
  have one: "\<And>st. list_category w ref repo api_url d st
           = ((fst st @ [WarnCategory category_name RequestException], snd st), None)"
    by (rule list_category_fails [OF assms(2,3)])
  obtain m1 s1 r1 where a: "list_categories w ref repo api_url cats1 ([], []) = ((m1, s1), r1)"
    by (cases "list_categories w ref repo api_url cats1 ([], [])") auto
  obtain m2 s2 r2 where b: "list_categories w ref repo api_url cats2 ([], []) = ((m2, s2), r2)"
    by (cases "list_categories w ref repo api_url cats2 ([], [])") auto
  have with_d: "r1 = None \<Longrightarrow> list_categories w ref repo api_url (cats1 @ PDict d # cats2) ([], [])
      = ((m1 @ WarnCategory category_name RequestException # m2, s1 @ s2), r2)"
    using a b assms(1) one
      list_categories_shift [of w ref repo api_url cats2
        "(m1 @ [WarnCategory category_name RequestException], s1)"]
    by (simp add: list_categories_append shift_state_def)
  have without_d: "r1 = None \<Longrightarrow> list_categories w ref repo api_url (cats1 @ cats2) ([], [])
      = ((m1 @ m2, s1 @ s2), r2)"
    using a b list_categories_shift [of w ref repo api_url cats2 "(m1, s1)"]
    by (simp add: list_categories_append shift_state_def)
  have stop: "\<And>e zs. r1 = Some e \<Longrightarrow> list_categories w ref repo api_url (cats1 @ zs) ([], [])
      = ((m1, s1), Some e)"
    using a by (simp add: list_categories_append)
  have 2: "snd (catalog_of w ref repo api_url (cats1 @ PDict d # cats2))
         = snd (catalog_of w ref repo api_url (cats1 @ cats2))"
  proof (cases r1)
    case None
    show ?thesis unfolding catalog_of_def with_d [OF None] without_d [OF None]
      by (cases r2) (auto simp: list_failed_def split: sum.splits)
  next
    case (Some e)
    show ?thesis unfolding catalog_of_def stop [OF Some] by simp
  qed
  have 3: "snd (list_categories w ref repo api_url cats1 ([], [])) = None \<longrightarrow>
          WarnCategory category_name RequestException
            \<in> set (fst (catalog_of w ref repo api_url (cats1 @ PDict d # cats2)))"
  proof
    assume "snd (list_categories w ref repo api_url cats1 ([], [])) = None"
    with a have n: "r1 = None" by simp
    show "WarnCategory category_name RequestException
            \<in> set (fst (catalog_of w ref repo api_url (cats1 @ PDict d # cats2)))"
      unfolding catalog_of_def with_d [OF n]
      by (cases r2) (auto simp: list_failed_def split: sum.splits)
  qed
  from one [of "(msgs, skills)"] 2 3 show ?thesis by simp
qed

text \<open>
  The theorem on the repository whose category \<open>web\<close> cannot be listed: the warning is
  printed, and the catalog holds the two skills of \<open>tools\<close>, sorted.
\<close>

theorem category_failure_skipped_witness:
  "eq_str (dict_get [(PStr ''type'', PStr ''dir''), (PStr ''name'', PStr ''web''),
                     (PStr ''path'', PStr ''web''), (PStr ''url'', PStr ''https://api/web'')]
             ''type'') ''dir''
   \<and> listing_fails catalog_world ''main'' (contents_url ''acme'' ''skills'' [] @ ''web'')
   \<and> catalog_of catalog_world ''main'' ''acme/skills'' (contents_url ''acme'' ''skills'' [])
         catalog_root
       = ([WarnCategory (PStr ''web'') RequestException],
          [skill_listing ''tools'' ''fmt'', skill_listing ''tools'' ''react-lint''])
   \<and> snd (catalog_of catalog_world ''main'' ''acme/skills'' (contents_url ''acme'' ''skills'' [])
         [entry_json (Directory ''tools'' ''tools'' ''https://api/tools'' [])])
       = [skill_listing ''tools'' ''fmt'', skill_listing ''tools'' ''react-lint'']"
proof -
  let ?d = "[(PStr ''type'', PStr ''dir''), (PStr ''name'', PStr ''web''),
             (PStr ''path'', PStr ''web''), (PStr ''url'', PStr ''https://api/web'')]"
  let ?tools = "entry_json (Directory ''tools'' ''tools'' ''https://api/tools'' [])"
  let ?root = "contents_url ''acme'' ''skills'' []"
  have a: "eq_str (dict_get ?d ''type'') ''dir''" by code_simp
  have b: "dict_index ?d ''name'' = Inr (PStr ''web'')" by code_simp
  have c: "listing_fails catalog_world ''main'' (?root @ fmt catalog_world (PStr ''web''))"
    by code_simp
  have c': "listing_fails catalog_world ''main'' (?root @ ''web'')" by code_simp
  have r: "catalog_root = [] @ PDict ?d # [?tools]" by (simp add: catalog_root_def)
  have e: "catalog_of catalog_world ''main'' ''acme/skills'' ?root catalog_root
       = ([WarnCategory (PStr ''web'') RequestException],
          [skill_listing ''tools'' ''fmt'', skill_listing ''tools'' ''react-lint''])"
    by code_simp
  from category_failure_skipped [OF a b c, of "''acme/skills''" "[]" "[]" "[]" "[?tools]"]
  have "snd (catalog_of catalog_world ''main'' ''acme/skills'' ?root ([] @ PDict ?d # [?tools]))
      = snd (catalog_of catalog_world ''main'' ''acme/skills'' ?root ([] @ [?tools]))"
    by blast
  then have "snd (catalog_of catalog_world ''main'' ''acme/skills'' ?root [?tools])
      = [skill_listing ''tools'' ''fmt'', skill_listing ''tools'' ''react-lint'']"
    using e unfolding r [symmetric] by simp
  with a c' e show ?thesis by blast
qed

section \<open>A response that is not a list\<close>

lemma get_json_ok:
  assumes "http_get w url (Some ref) = Response r"
    and "\<not> (400 \<le> status_code r \<and> status_code r < 600)"
    and "json_body r = Some v"
  shows "get_json w ref url = Inr v"
  using assms
  by (simp add: get_json_def requests_get_def raise_for_status_def response_json_def bind_def)

lemma list_tree_object:
  assumes "http_get w url (Some ref) = Response r"
    and "\<not> (400 \<le> status_code r \<and> status_code r < 600)"
    and "json_body r = Some (PDict d)"
    and "0 < recursion_limit w"
    and "\<not> eq_str (dict_get d ''type'') ''file''" and "\<not> eq_str (dict_get d ''type'') ''dir''"
  shows "list_tree w ref url local_dir = Inr []"
proof -
  from assms(4) obtain m where m: "recursion_limit w = Suc m"
    by (cases "recursion_limit w") auto
  have "collect_item w ref m (PDict d) local_dir [] = ([], None)"
    using assms(5,6) by (simp add: collect_item.simps)
  then show ?thesis using assms(1-3)
    by (simp add: list_tree_def m requests_get_def raise_for_status_def response_json_def)
qed

text \<open>
  Claim C6, as amended. When a listing call is answered, with a status that is not an
  error, by a JSON object instead of a list: the catalog's root listing prints the
  warning, the object's \<open>message\<close> and \<open>documentation_url\<close> when present, and returns
  the empty catalog; the recursive tree listing takes the object for a single entry, so
  that an object whose \<open>type\<close> is neither \<open>file\<close> nor \<open>dir\<close> gives zero files and no
  exception, and the download then reports that no file was found, removes its temporary
  directory and returns nothing. A listing call that fails (no response, or a 4xx or 5xx
  status, as for a path that does not exist) makes the tree listing fail with that error.
\<close>

theorem object_response:
  assumes "http_get w url (Some ref) = Response r"
    and "\<not> (400 \<le> status_code r \<and> status_code r < 600)"
    and "json_body r = Some (PDict d)"
  shows "(\<forall>owner repo_name repo.
            unpack2 (split_str ''/'' repo) = Inr (owner, repo_name)
            \<and> url = contents_url owner repo_name [] \<longrightarrow>
            list_github_skills w repo ref
              = ([WarnUnexpectedFormat]
                   @ (if dict_has d ''message'' then [ErrMessage (dict_get d ''message'')] else [])
                   @ (if dict_has d ''documentation_url''
                      then [ErrDocumentation (dict_get d ''documentation_url'')] else []),
                 []))
     \<and> (0 < recursion_limit w \<and> \<not> eq_str (dict_get d ''type'') ''file''
          \<and> \<not> eq_str (dict_get d ''type'') ''dir'' \<longrightarrow>
          (\<forall>local_dir. list_tree w ref url local_dir = Inr [])
          \<and> (\<forall>owner repo skill_path picks st.
                url = contents_url owner repo skill_path \<and> mkdtemp_ok w \<longrightarrow>
                download_skill_from_github w picks st owner repo skill_path ref
                  = Inr (rmtree (st\<lparr>created := Suc (created st), live := created st # live st\<rparr>)
                           (TmpDir (created st)),
                         [EchoAnalysing, ErrNoFiles], None)))
     \<and> (\<forall>url' local_dir. listing_fails w ref url' \<and> 0 < recursion_limit w \<longrightarrow>
            list_tree w ref url' local_dir = Inl RequestException)"
proof -
  have 1: "\<forall>owner repo_name repo.
            unpack2 (split_str ''/'' repo) = Inr (owner, repo_name)
            \<and> url = contents_url owner repo_name [] \<longrightarrow>
            list_github_skills w repo ref
              = ([WarnUnexpectedFormat]
                   @ (if dict_has d ''message'' then [ErrMessage (dict_get d ''message'')] else [])
                   @ (if dict_has d ''documentation_url''
                      then [ErrDocumentation (dict_get d ''documentation_url'')] else []),
                 [])"
  proof (intro allI impI, elim conjE)
    fix owner repo_name repo
    assume u: "unpack2 (split_str ''/'' repo) = Inr (owner, repo_name)"
      and url: "url = contents_url owner repo_name []"
    have "get_json w ref (''https://api.github.com/repos/'' @ owner @ ''/'' @ repo_name
            @ ''/contents/'') = Inr (PDict d)"
      using get_json_ok [OF assms] url by (simp add: contents_url_def)
    then show "list_github_skills w repo ref
              = ([WarnUnexpectedFormat]
                   @ (if dict_has d ''message'' then [ErrMessage (dict_get d ''message'')] else [])
                   @ (if dict_has d ''documentation_url''
                      then [ErrDocumentation (dict_get d ''documentation_url'')] else []),
                 [])"
      using u by (simp add: list_github_skills_def Let_def)
  qed
  have 2: "0 < recursion_limit w \<and> \<not> eq_str (dict_get d ''type'') ''file''
          \<and> \<not> eq_str (dict_get d ''type'') ''dir'' \<longrightarrow>
          (\<forall>local_dir. list_tree w ref url local_dir = Inr [])
          \<and> (\<forall>owner repo skill_path picks st.
                url = contents_url owner repo skill_path \<and> mkdtemp_ok w \<longrightarrow>
                download_skill_from_github w picks st owner repo skill_path ref
                  = Inr (rmtree (st\<lparr>created := Suc (created st), live := created st # live st\<rparr>)
                           (TmpDir (created st)),
                         [EchoAnalysing, ErrNoFiles], None))"
  proof (intro impI, elim conjE)
    assume h: "0 < recursion_limit w" "\<not> eq_str (dict_get d ''type'') ''file''"
      "\<not> eq_str (dict_get d ''type'') ''dir''"
    have t: "\<And>local_dir. list_tree w ref url local_dir = Inr []"
      by (rule list_tree_object [OF assms h])
    then show "(\<forall>local_dir. list_tree w ref url local_dir = Inr [])
          \<and> (\<forall>owner repo skill_path picks st.
                url = contents_url owner repo skill_path \<and> mkdtemp_ok w \<longrightarrow>
                download_skill_from_github w picks st owner repo skill_path ref
                  = Inr (rmtree (st\<lparr>created := Suc (created st), live := created st # live st\<rparr>)
                           (TmpDir (created st)),
                         [EchoAnalysing, ErrNoFiles], None))"
      by (auto simp: download_skill_from_github_def mkdtemp_def bind_def Let_def)
  qed
  have 3: "\<forall>url' local_dir. listing_fails w ref url' \<and> 0 < recursion_limit w \<longrightarrow>
            list_tree w ref url' local_dir = Inl RequestException"
  proof (intro allI impI, elim conjE)
    fix url' local_dir
    assume f: "listing_fails w ref url'" and "0 < recursion_limit w"
    then obtain m where m: "recursion_limit w = Suc m" by (cases "recursion_limit w") auto
    show "list_tree w ref url' local_dir = Inl RequestException"
      using collect_files_fails [OF f, of m local_dir "[]"] by (simp add: list_tree_def m)
  qed
  from 1 2 3 show ?thesis by blast
qed

text \<open>The theorem on the server that answers \<open>Not Found\<close> with status 200.\<close>

theorem object_response_witness:
  "http_get not_found_world (contents_url ''acme'' ''skills'' []) (Some ''main'')
     = Response \<lparr> status_code = 200, json_body = Some (PDict not_found), content = [] \<rparr>
   \<and> list_github_skills not_found_world ''acme/skills'' ''main''
       = ([WarnUnexpectedFormat, ErrMessage (PStr ''Not Found''),
           ErrDocumentation (PStr ''https://docs.github.com/rest'')], [])
   \<and> list_tree not_found_world ''main'' (contents_url ''acme'' ''skills'' []) (TmpDir 0) = Inr []"
proof -
  let ?r = "\<lparr> status_code = 200, json_body = Some (PDict not_found), content = [] \<rparr>"
  have a: "http_get not_found_world (contents_url ''acme'' ''skills'' []) (Some ''main'')
     = Response ?r" by (simp add: not_found_world_def offline_def)
  have b: "\<not> (400 \<le> status_code ?r \<and> status_code ?r < 600)" by simp
  have c: "json_body ?r = Some (PDict not_found)" by simp
  have u: "unpack2 (split_str ''/'' ''acme/skills'') = Inr (''acme'', ''skills'')" by code_simp
  have m: "dict_has not_found ''message''" "dict_has not_found ''documentation_url''"
    "dict_get not_found ''message'' = PStr ''Not Found''"
    "dict_get not_found ''documentation_url'' = PStr ''https://docs.github.com/rest''"
    "\<not> eq_str (dict_get not_found ''type'') ''file''"
    "\<not> eq_str (dict_get not_found ''type'') ''dir''"
    "0 < recursion_limit not_found_world"
    by code_simp+
  note t = object_response [OF a b c]
  from t u m have 1: "list_github_skills not_found_world ''acme/skills'' ''main''
       = ([WarnUnexpectedFormat, ErrMessage (PStr ''Not Found''),
           ErrDocumentation (PStr ''https://docs.github.com/rest'')], [])"
    by simp
  from t m have 2: "list_tree not_found_world ''main'' (contents_url ''acme'' ''skills'' [])
      (TmpDir 0) = Inr []" by blast
  from a 1 2 show ?thesis by blast
qed

text \<open>
  Claim C6 as stated fails: when the target of the tree listing is answered by an error
  object with a \<open>message\<close> field (status 200), the listing does not fail; it returns zero
  files.
\<close>

theorem object_response_counterexample:
  "http_get not_found_world (contents_url ''acme'' ''skills'' ''web/react'') (Some ''main'')
     = Response \<lparr> status_code = 200, json_body = Some (PDict not_found), content = [] \<rparr>
   \<and> dict_has not_found ''message''
   \<and> list_tree not_found_world ''main'' (contents_url ''acme'' ''skills'' ''web/react'') (TmpDir 0)
       = Inr []"
  by code_simp

section \<open>Sorting and searching the catalog\<close>

lemma py_eq_PStr: "py_eq v (PStr s) \<longleftrightarrow> v = PStr s"
  by (cases v) (auto simp: py_eq.simps)

lemma py_lt_PStr: "py_lt (PStr s) (PStr t) = Inr (s < t)"
  by (simp add: py_lt.simps)

lemma key_lt_str:
  assumes "is_str (sk_category x)" "is_str (sk_name x)" "is_str (sk_category y)" "is_str (sk_name y)"
  shows "py_lt_list (sort_key_of y) (sort_key_of x) = Inr (str_key y < str_key x)"
proof -
  from assms obtain cx nx cy ny where
    "sk_category x = PStr cx" "sk_name x = PStr nx" "sk_category y = PStr cy" "sk_name y = PStr ny"
    by (auto simp: is_str_def split: pyval.splits)
  then show ?thesis
    by (auto simp: sort_key_of_def str_key_def the_str_def py_eq_PStr py_lt_PStr less_prod_def)
qed

lemma insort_py_str:
  assumes "str_keyed x" "\<forall>y\<in>set ys. str_keyed y"
  shows "insort_py x ys = Inr (insort_key str_key x ys)"
  using assms(2)
proof (induction ys)
  case Nil
  then show ?case by simp
next
  case (Cons y ys)
  then have y: "str_keyed y" and ys: "\<forall>z\<in>set ys. str_keyed z" by simp_all
  have lt: "py_lt_list (sort_key_of y) (sort_key_of x) = Inr (str_key y < str_key x)"
    using assms(1) y by (intro key_lt_str) (simp_all add: str_keyed_def)
  show ?case using Cons.IH [OF ys] lt by (auto simp: bind_def)
qed

lemma py_sorted_str:
  assumes "\<forall>y\<in>set xs. str_keyed y"
  shows "py_sorted xs = Inr (sort_key str_key xs)"
  using assms
proof (induction xs)
  case Nil
  then show ?case by simp
next
  case (Cons x xs)
  then have x: "str_keyed x" and xs: "\<forall>z\<in>set xs. str_keyed z" by simp_all
  have "\<forall>z\<in>set (sort_key str_key xs). str_keyed z" using xs by simp
  from insort_py_str [OF x this] Cons.IH [OF xs] show ?case by (simp add: bind_def)
qed

lemma insort_py_set: "insort_py x ys = Inr zs \<Longrightarrow> set zs = insert x (set ys)"
proof (induction ys arbitrary: zs)
  case Nil
  then show ?case by auto
next
  case (Cons y ys)
  then show ?case
    by (fastforce simp: bind_def split: sum.splits if_splits)
qed

lemma py_sorted_set: "py_sorted xs = Inr ys \<Longrightarrow> set ys = set xs"
proof (induction xs arbitrary: ys)
  case Nil
  then show ?case by simp
next
  case (Cons x xs)
  then obtain r where r: "py_sorted xs = Inr r" and i: "insort_py x r = Inr ys"
    by (auto simp: bind_def split: sum.splits)
  from Cons.IH [OF r] insort_py_set [OF i] show ?case by simp
qed

lemma py_sorted_sorted:
  assumes "py_sorted xs = Inr ys" and "\<forall>y\<in>set ys. str_keyed y"
  shows "sorted (map str_key ys)"
proof -
  from py_sorted_set [OF assms(1)] assms(2) have "\<forall>y\<in>set xs. str_keyed y" by simp
  from py_sorted_str [OF this] assms(1) have "ys = sort_key str_key xs" by simp
  then show ?thesis by simp
qed

lemma list_failed_empty: "snd (list_failed msgs e) = []"
  by (simp add: list_failed_def)

lemma catalog_of_cases:
  "snd (catalog_of w ref repo api_url cats) = []
   \<or> (\<exists>skills. py_sorted skills = Inr (snd (catalog_of w ref repo api_url cats)))"
  by (auto simp: catalog_of_def list_failed_empty split: prod.splits option.splits sum.splits)

lemma list_github_skills_cases:
  "snd (list_github_skills w repo ref) = []
   \<or> (\<exists>skills. py_sorted skills = Inr (snd (list_github_skills w repo ref)))"
proof (cases "unpack2 (split_str ''/'' repo)")
  case (Inl e)
  then show ?thesis by (simp add: list_github_skills_def list_failed_empty)
next
  case (Inr p)
  obtain owner repo_name where p: "p = (owner, repo_name)" by (cases p) auto
  let ?url = "''https://api.github.com/repos/'' @ owner @ ''/'' @ repo_name @ ''/contents/''"
  show ?thesis
  proof (cases "get_json w ref ?url")
    case (Inl e)
    with Inr p show ?thesis by (simp add: list_github_skills_def list_failed_empty)
  next
    case v: (Inr v)
    show ?thesis
    proof (cases "\<exists>cats. v = PList cats")
      case True
      then obtain cats where "v = PList cats" by blast
      with Inr p v have "list_github_skills w repo ref = catalog_of w ref repo ?url cats"
        by (simp add: list_github_skills_def)
      then show ?thesis using catalog_of_cases [of w ref repo ?url cats] by simp
    next
      case False
      with Inr p v have "snd (list_github_skills w repo ref) = []"
        by (cases v) (simp_all add: list_github_skills_def)
      then show ?thesis by simp
    qed
  qed
qed

lemma catalog_sorted:
  assumes "\<forall>l\<in>set (snd (list_github_skills w repo ref)). str_keyed l"
  shows "sorted (map str_key (snd (list_github_skills w repo ref)))"
  using list_github_skills_cases [of w repo ref]
proof
  assume "snd (list_github_skills w repo ref) = []"
  then show ?thesis by simp
next
  assume "\<exists>skills. py_sorted skills = Inr (snd (list_github_skills w repo ref))"
  then obtain skills where "py_sorted skills = Inr (snd (list_github_skills w repo ref))" ..
  from py_sorted_sorted [OF this assms] show ?thesis .
qed

lemma catalog_fetch_fails:
  assumes "unpack2 (split_str ''/'' repo) = Inr (owner, repo_name)"
    and "listing_fails w ref (contents_url owner repo_name [])"
  shows "snd (list_github_skills w repo ref) = []"
  using assms(1) get_json_fails [OF assms(2)]
  by (simp add: list_github_skills_def contents_url_def list_failed_empty)

lemma find_exact_find:
  "find_exact w default_repo skill_name xs
     = map_option (\<lambda>l. spec_for w default_repo l skill_name)
         (find (\<lambda>l. py_eq (sk_name l) (PStr skill_name)) xs)"
  by (induction xs) auto

lemma find_fuzzy_find:
  assumes "\<forall>l\<in>set xs. is_str (sk_name l)"
  shows "find_fuzzy w default_repo skill_name xs
     = Inr (map_option (\<lambda>l. spec_for w default_repo l (the_str (sk_name l)))
         (find (name_contains w skill_name) xs))"
  using assms
proof (induction xs)
  case Nil
  then show ?case by simp
next
  case (Cons x xs)
  then obtain s where s: "sk_name x = PStr s"
    by (auto simp: is_str_def split: pyval.splits)
  with Cons show ?case by (simp add: name_contains_def the_str_def)
qed

lemma find_fuzzy_no_match:
  assumes "\<forall>l\<in>set xs. \<not> name_contains w skill_name l"
  shows "find_fuzzy w default_repo skill_name xs = Inr None
         \<or> find_fuzzy w default_repo skill_name xs = Inl AttributeError"
  using assms
  by (induction xs) (auto simp: name_contains_def split: pyval.splits)

lemma find_skill_result:
  "snd (find_skill_by_name w skill_name ref repo_override)
     = (case find_exact w (override_or_default w repo_override) skill_name
               (snd (list_github_skills w (override_or_default w repo_override) ref)) of
          Some found \<Rightarrow> Some found
        | None \<Rightarrow>
            (case find_fuzzy w (override_or_default w repo_override) skill_name
                    (snd (list_github_skills w (override_or_default w repo_override) ref)) of
               Inl e \<Rightarrow> None
             | Inr result \<Rightarrow> result))"
  by (simp add: find_skill_by_name_def Let_def split: prod.splits option.splits sum.splits)

text \<open>
  What holds of the lookup for every catalog. Let the catalog be the list
  \<open>_list_github_skills\<close> returns for the override or default repository. If a name in
  the catalog equals the query, the lookup returns the spec of the first such listing,
  whatever other names contain the query. If none does and the names are strings, it
  returns the spec of the first listing, in the order of the catalog, whose name contains
  the query, both folded by \<open>str.lower\<close>; the catalog is sorted ascending by category and
  name when these are strings, so that listing is the first one in that order. If no name
  equals or contains the query the lookup returns \<open>None\<close>, and it does so when the root
  listing of the catalog fails, since the catalog is then empty. The lookup has no
  exception to raise: its \<open>except\<close> clause turns each into \<open>None\<close>.
\<close>

theorem find_skill_by_name_order:
  assumes "default_repo = override_or_default w repo_override"
    and "catalog = snd (list_github_skills w default_repo ref)"
  shows "(\<forall>l. find (\<lambda>l. py_eq (sk_name l) (PStr skill_name)) catalog = Some l \<longrightarrow>
            snd (find_skill_by_name w skill_name ref repo_override)
              = Some (spec_for w default_repo l skill_name))
     \<and> (find (\<lambda>l. py_eq (sk_name l) (PStr skill_name)) catalog = None
          \<and> (\<forall>l\<in>set catalog. is_str (sk_name l)) \<longrightarrow>
            snd (find_skill_by_name w skill_name ref repo_override)
              = map_option (\<lambda>l. spec_for w default_repo l (the_str (sk_name l)))
                  (find (name_contains w skill_name) catalog))
     \<and> ((\<forall>l\<in>set catalog. is_str (sk_category l) \<and> is_str (sk_name l)) \<longrightarrow>
            sorted (map str_key catalog))
     \<and> ((\<forall>l\<in>set catalog. \<not> py_eq (sk_name l) (PStr skill_name) \<and> \<not> name_contains w skill_name l)
          \<longrightarrow> snd (find_skill_by_name w skill_name ref repo_override) = None)
     \<and> (\<forall>owner repo_name.
            unpack2 (split_str ''/'' default_repo) = Inr (owner, repo_name)
            \<and> listing_fails w ref (contents_url owner repo_name []) \<longrightarrow>
            catalog = [] \<and> snd (find_skill_by_name w skill_name ref repo_override) = None)"
proof -
  let ?exact = "\<lambda>l. py_eq (sk_name l) (PStr skill_name)"
  let ?res = "snd (find_skill_by_name w skill_name ref repo_override)"
  have res: "?res = (case find_exact w default_repo skill_name catalog of
          Some found \<Rightarrow> Some found
        | None \<Rightarrow>
            (case find_fuzzy w default_repo skill_name catalog of
               Inl e \<Rightarrow> None
             | Inr result \<Rightarrow> result))"
    unfolding assms by (rule find_skill_result)
  have 1: "\<forall>l. find ?exact catalog = Some l \<longrightarrow> ?res = Some (spec_for w default_repo l skill_name)"
    by (simp add: res find_exact_find)
  have 2: "find ?exact catalog = None \<and> (\<forall>l\<in>set catalog. is_str (sk_name l)) \<longrightarrow>
            ?res = map_option (\<lambda>l. spec_for w default_repo l (the_str (sk_name l)))
                  (find (name_contains w skill_name) catalog)"
    by (simp add: res find_exact_find find_fuzzy_find)
  have 3: "(\<forall>l\<in>set catalog. is_str (sk_category l) \<and> is_str (sk_name l)) \<longrightarrow>
            sorted (map str_key catalog)"
    unfolding assms(2) using catalog_sorted [of w default_repo ref]
    by (simp add: str_keyed_def)
  have none: "(\<forall>l\<in>set catalog. \<not> ?exact l \<and> \<not> name_contains w skill_name l) \<Longrightarrow> ?res = None"
  proof -
    assume a: "\<forall>l\<in>set catalog. \<not> ?exact l \<and> \<not> name_contains w skill_name l"
    then have "find ?exact catalog = None" by (simp add: find_None_iff)
    moreover from a have "\<forall>l\<in>set catalog. \<not> name_contains w skill_name l" by simp
    from find_fuzzy_no_match [OF this, of default_repo]
    have "find_fuzzy w default_repo skill_name catalog = Inr None
         \<or> find_fuzzy w default_repo skill_name catalog = Inl AttributeError" .
    ultimately show "?res = None" by (auto simp: res find_exact_find)
  qed
  have 5: "\<forall>owner repo_name.
            unpack2 (split_str ''/'' default_repo) = Inr (owner, repo_name)
            \<and> listing_fails w ref (contents_url owner repo_name []) \<longrightarrow>
            catalog = [] \<and> ?res = None"
  proof (intro allI impI, elim conjE)
    fix owner repo_name
    assume "unpack2 (split_str ''/'' default_repo) = Inr (owner, repo_name)"
      and "listing_fails w ref (contents_url owner repo_name [])"
    then have "catalog = []" unfolding assms(2) by (rule catalog_fetch_fails)
    with none show "catalog = [] \<and> ?res = None" by simp
  qed
  from 1 2 3 none 5 show ?thesis by blast
qed

text \<open>
  The theorem on the repository \<open>acme/skills\<close>, whose catalog is \<open>fmt\<close>, \<open>react-lint\<close>:
  the query \<open>react-lint\<close> is an exact match although \<open>fmt\<close> comes first; \<open>t\<close> is contained
  in both names and gives the first, \<open>fmt\<close>, which the server listed second; \<open>LINT\<close>
  matches \<open>react-lint\<close> without regard to case; \<open>vue\<close> matches nothing; and with no
  server the lookup returns \<open>None\<close>.
\<close>

theorem find_skill_by_name_order_witness:
  "snd (list_github_skills catalog_world ''acme/skills'' ''main'')
     = [skill_listing ''tools'' ''fmt'', skill_listing ''tools'' ''react-lint'']
   \<and> sorted (map str_key [skill_listing ''tools'' ''fmt'', skill_listing ''tools'' ''react-lint''])
   \<and> snd (find_skill_by_name catalog_world ''react-lint'' ''main'' (Some ''acme/skills''))
       = Some ''acme/skills/tools/react-lint''
   \<and> snd (find_skill_by_name catalog_world ''t'' ''main'' (Some ''acme/skills''))
       = Some ''acme/skills/tools/fmt''
   \<and> snd (find_skill_by_name catalog_world ''LINT'' ''main'' (Some ''acme/skills''))
       = Some ''acme/skills/tools/react-lint''
   \<and> snd (find_skill_by_name catalog_world ''vue'' ''main'' (Some ''acme/skills'')) = None
   \<and> snd (find_skill_by_name offline ''t'' ''main'' (Some ''acme/skills'')) = None"
proof -
  let ?cat = "[skill_listing ''tools'' ''fmt'', skill_listing ''tools'' ''react-lint'']"
  have d: "''acme/skills'' = override_or_default catalog_world (Some ''acme/skills'')"
    by code_simp
  have c: "?cat = snd (list_github_skills catalog_world ''acme/skills'' ''main'')"
    by code_simp
  have str: "\<forall>l\<in>set ?cat. is_str (sk_category l) \<and> is_str (sk_name l)"
    by (simp add: skill_listing_def is_str_def)
  have e1: "find (\<lambda>l. py_eq (sk_name l) (PStr ''react-lint'')) ?cat
      = Some (skill_listing ''tools'' ''react-lint'')" by code_simp
  have s1: "spec_for catalog_world ''acme/skills'' (skill_listing ''tools'' ''react-lint'')
      ''react-lint'' = ''acme/skills/tools/react-lint''" by code_simp
  have e2: "find (\<lambda>l. py_eq (sk_name l) (PStr ''t'')) ?cat = None" by code_simp
  have f2: "map_option (\<lambda>l. spec_for catalog_world ''acme/skills'' l (the_str (sk_name l)))
      (find (name_contains catalog_world ''t'') ?cat) = Some ''acme/skills/tools/fmt''" by code_simp
  have e3: "find (\<lambda>l. py_eq (sk_name l) (PStr ''LINT'')) ?cat = None" by code_simp
  have f3: "map_option (\<lambda>l. spec_for catalog_world ''acme/skills'' l (the_str (sk_name l)))
      (find (name_contains catalog_world ''LINT'') ?cat) = Some ''acme/skills/tools/react-lint''" by code_simp
  have n4: "\<forall>l\<in>set ?cat. \<not> py_eq (sk_name l) (PStr ''vue'') \<and> \<not> name_contains catalog_world ''vue'' l"
    by code_simp
  have d5: "''acme/skills'' = override_or_default offline (Some ''acme/skills'')" by code_simp
  have u5: "unpack2 (split_str ''/'' ''acme/skills'') = Inr (''acme'', ''skills'')" by code_simp
  have l5: "listing_fails offline ''main'' (contents_url ''acme'' ''skills'' [])" by code_simp
  note t = find_skill_by_name_order [OF d c]
  from t [of "''react-lint''"] e1 s1
  have 1: "snd (find_skill_by_name catalog_world ''react-lint'' ''main'' (Some ''acme/skills''))
       = Some ''acme/skills/tools/react-lint''" by simp
  from t [of "''t''"] e2 f2 str
  have 2: "snd (find_skill_by_name catalog_world ''t'' ''main'' (Some ''acme/skills''))
       = Some ''acme/skills/tools/fmt''" by simp
  from t [of "''LINT''"] e3 f3 str
  have 3: "snd (find_skill_by_name catalog_world ''LINT'' ''main'' (Some ''acme/skills''))
       = Some ''acme/skills/tools/react-lint''" by simp
  from t [of "''vue''"] n4
  have 4: "snd (find_skill_by_name catalog_world ''vue'' ''main'' (Some ''acme/skills'')) = None"
    by blast
  from find_skill_by_name_order [OF d5 refl, where ref = "''main''" and skill_name = "''t''"] u5 l5
  have 5: "snd (find_skill_by_name offline ''t'' ''main'' (Some ''acme/skills'')) = None"
    by blast
  from t [of "''t''"] str have 6: "sorted (map str_key ?cat)" by blast
  from c 1 2 3 4 5 6 show ?thesis by simp
qed

text \<open>
  Claim C10 fails on the code for a catalog that holds a name that is not a \<open>str\<close>. The
  manifest of \<open>data/stats\<close> gives the name 2048, an \<open>int\<close>; the catalog is sorted (the
  categories differ, so the names are not compared) and lists \<open>stats\<close> before
  \<open>web/x-react\<close>. No name equals the query \<open>react\<close>, and the first listing whose name
  contains it is \<open>x-react\<close>. The second loop calls \<open>.lower()\<close> on the name 2048 first:
  the \<open>AttributeError\<close> is caught by the \<open>except\<close> clause of the lookup, which prints
  it and returns \<open>None\<close>. The first loop, which compares with \<open>==\<close>, has passed the
  same name without an exception.
\<close>

theorem fuzzy_match_typed_name:
  "snd (list_github_skills typed_world ''acme/skills'' ''main'')
     = [(skill_listing ''data'' ''stats'') \<lparr> sk_name := PInt 2048 \<rparr>,
        skill_listing ''web'' ''x-react'']
   \<and> find (\<lambda>l. py_eq (sk_name l) (PStr ''react''))
         (snd (list_github_skills typed_world ''acme/skills'' ''main'')) = None
   \<and> find (name_contains typed_world ''react'')
         (snd (list_github_skills typed_world ''acme/skills'' ''main''))
       = Some (skill_listing ''web'' ''x-react'')
   \<and> find_skill_by_name typed_world ''react'' ''main'' (Some ''acme/skills'')
       = ([ErrFindSkill AttributeError], None)"
  by code_simp

end
